theory Spec2Isabelle
  imports Complex_Main "HOL-Library.AList" "HOL-Library.Sublist" "HOL-Library.Char_ord" "HOL-Library.List_Lexorder"
begin
section \<open>Common Python notions\<close>

text \<open>
  Exceptions and process exits of the Python sources are values: \<open>SystemExit n\<close> is
  \<^verbatim>\<open>sys.exit(n)\<close>, the other constructors are the uncaught exceptions the modelled
  code can raise. A fallible function returns \<open>error + 'a\<close> with \<open>Inl\<close> the error.
\<close>

datatype error = SystemExit int | ValueError | IndexError | KeyError | TypeError | IOError

text \<open>An attribute dictionary: string keys, string values.\<close>

type_synonym attrs = "string \<rightharpoonup> string"

definition getitem :: "('k \<rightharpoonup> 'v) \<Rightarrow> 'k \<Rightarrow> error + 'v" where
  \<comment> \<open>\<^verbatim>\<open>d[k]\<close>: KeyError when the key is absent.\<close>
  "getitem d k = (case d k of None \<Rightarrow> Inl KeyError | Some v \<Rightarrow> Inr v)"

definition py_remove :: "'a \<Rightarrow> 'a list \<Rightarrow> error + 'a list" where
  \<comment> \<open>\<^verbatim>\<open>xs.remove(x)\<close>: drops the first occurrence, ValueError when there is none.\<close>
  "py_remove x xs = (if x \<in> set xs then Inr (remove1 x xs) else Inl ValueError)"

definition truthy_str :: "string option \<Rightarrow> bool" where
  \<comment> \<open>Truth value of a value that is \<^verbatim>\<open>None\<close> or a string.\<close>
  "truthy_str v = (case v of None \<Rightarrow> False | Some s \<Rightarrow> s \<noteq> [])"


section \<open>load\_data.py: the statistical mode\<close>

text \<open>
  \<^verbatim>\<open>counts[item] = counts.get(item, 0) + 1\<close> on a dictionary kept as an association
  list with one entry per key.
\<close>

fun count_item :: "('a \<times> nat) list \<Rightarrow> 'a \<Rightarrow> ('a \<times> nat) list" where
  "count_item [] item = [(item, 1)]"
| "count_item ((k, v) # kvs) item =
     (if k = item then (k, v + 1) # kvs else (k, v) # count_item kvs item)"

fun counts_of :: "('a \<times> nat) list \<Rightarrow> 'a list \<Rightarrow> ('a \<times> nat) list" where
  "counts_of counts [] = counts"
| "counts_of counts (item # rest) = counts_of (count_item counts item) rest"

text \<open>
  The scan \<^verbatim>\<open>for k, v in counts.items(): if v > maxcount: ...\<close>, over the items in the
  order the dictionary yields them.
\<close>

fun max_scan :: "('a \<times> nat) list \<Rightarrow> 'a option \<times> nat \<Rightarrow> 'a option \<times> nat" where
  "max_scan [] acc = acc"
| "max_scan ((k, v) # kvs) (maxitem, maxcount) =
     max_scan kvs (if v > maxcount then (Some k, v) else (maxitem, maxcount))"

definition mode_items :: "('a \<times> nat) list \<Rightarrow> 'a option" where
  \<comment> \<open>Lines 99-113 of \<^verbatim>\<open>mode\<close>, on the items of \<^verbatim>\<open>counts\<close>.\<close>
  "mode_items items =
     (case max_scan items (None, 0) of (maxitem, maxcount) \<Rightarrow>
        if maxcount = 1 then None
        else if count_list (map snd items) maxcount > 1 then None
        else maxitem)"

definition mode :: "'a list \<Rightarrow> 'a option" where
  "mode thelist =
     (if thelist = [] then None
      else if length thelist = 1 then Some (hd thelist)
      else mode_items (counts_of [] thelist))"

text \<open>
  The policy of the specification, in its words: the mode is undefined when the most
  frequent value occurs exactly once or when two or more values tie for most frequent;
  otherwise it is the unique most frequent value.
\<close>

definition max_count :: "'a list \<Rightarrow> nat" where
  "max_count xs = fold max (map (count_list xs) xs) 0"

definition most_frequent :: "'a list \<Rightarrow> 'a list" where
  "most_frequent xs = filter (\<lambda>x. count_list xs x = max_count xs) (remdups xs)"

definition mode_policy :: "'a list \<Rightarrow> 'a option" where
  "mode_policy xs =
     (if max_count xs = 1 \<or> length (most_frequent xs) \<ge> 2 then None
      else Some (hd (most_frequent xs)))"


section \<open>load\_data.py: the dimension gate\<close>

text \<open>
  \<^verbatim>\<open>readfile.read_attribute\<close> is not part of the sources at hand; it is the parameter
  \<open>read_attribute\<close>, giving the attribute dictionary of a path. The loop of lines 126-129
  reads \<^verbatim>\<open>WIDTH\<close> and \<^verbatim>\<open>FILE_LENGTH\<close> of every candidate.
\<close>

fun read_sizes :: "(string \<Rightarrow> attrs) \<Rightarrow> string list \<Rightarrow> error + (string list \<times> string list)" where
  "read_sizes read_attribute [] = Inr ([], [])"
| "read_sizes read_attribute (file # rest) =
     (case getitem (read_attribute file) ''WIDTH'' of Inl e \<Rightarrow> Inl e
      | Inr wd \<Rightarrow>
     (case getitem (read_attribute file) ''FILE_LENGTH'' of Inl e \<Rightarrow> Inl e
      | Inr len \<Rightarrow>
     (case read_sizes read_attribute rest of Inl e \<Rightarrow> Inl e
      | Inr (ws, ls) \<Rightarrow> Inr (wd # ws, len # ls))))"

text \<open>
  Lines 143-146: \<open>drop_loop\<close> walks the candidates with their sizes and removes each
  non-conforming one from \<^verbatim>\<open>fileListOut\<close>; \<open>dropped_files\<close> is the list of files the
  warning prints.
\<close>

fun drop_loop :: "(string \<times> string \<times> string) list \<Rightarrow> string option \<Rightarrow> string option
                  \<Rightarrow> string list \<Rightarrow> error + string list" where
  "drop_loop [] mode_width mode_length fileListOut = Inr fileListOut"
| "drop_loop ((file, wd, len) # rest) mode_width mode_length fileListOut =
     (if Some wd \<noteq> mode_width \<or> Some len \<noteq> mode_length
      then (case py_remove file fileListOut of Inl e \<Rightarrow> Inl e
            | Inr out \<Rightarrow> drop_loop rest mode_width mode_length out)
      else drop_loop rest mode_width mode_length fileListOut)"

definition count_opt :: "'a list \<Rightarrow> 'a option \<Rightarrow> nat" where
  \<comment> \<open>\<^verbatim>\<open>xs.count(v)\<close> where \<^verbatim>\<open>v\<close> may be \<^verbatim>\<open>None\<close>, which no string equals.\<close>
  "count_opt xs v = (case v of None \<Rightarrow> 0 | Some s \<Rightarrow> count_list xs s)"

definition check_file_size ::
  "(string \<Rightarrow> attrs) \<Rightarrow> string list \<Rightarrow> string option \<Rightarrow> string option
     \<Rightarrow> error + (string list \<times> string option \<times> string option)" where
  "check_file_size read_attribute fileList mode_width0 mode_length0 =
     (if fileList = [] then Inr (fileList, None, None)
      else case read_sizes read_attribute fileList of Inl e \<Rightarrow> Inl e
      | Inr (widthList, lengthList) \<Rightarrow>
          let mode_width = (if \<not> truthy_str mode_width0 then mode widthList else mode_width0);
              mode_length = (if \<not> truthy_str mode_length0 then mode lengthList else mode_length0)
          in if count_opt widthList mode_width \<noteq> length widthList
                \<or> count_opt lengthList mode_length \<noteq> length lengthList
             then (case drop_loop (zip fileList (zip widthList lengthList))
                           mode_width mode_length fileList of
                     Inl e \<Rightarrow> Inl e
                   | Inr fileListOut \<Rightarrow> Inr (fileListOut, mode_width, mode_length))
             else Inr (fileList, mode_width, mode_length))"

definition dropped_files ::
  "(string \<Rightarrow> attrs) \<Rightarrow> string list \<Rightarrow> string option \<Rightarrow> string option \<Rightarrow> string list" where
  \<comment> \<open>The candidates listed by the warning of lines 138-148 (none when it is not printed).\<close>
  "dropped_files read_attribute fileList mode_width mode_length =
     filter (\<lambda>file. read_attribute file ''WIDTH'' \<noteq> mode_width
                   \<or> read_attribute file ''FILE_LENGTH'' \<noteq> mode_length) fileList"

text \<open>A concrete attribute reader for the examples: four candidates, the last one narrower.\<close>

definition attrs_of :: "string \<Rightarrow> string \<Rightarrow> attrs" where
  "attrs_of wd len = [''WIDTH'' \<mapsto> wd, ''FILE_LENGTH'' \<mapsto> len]"

definition example_sizes :: "string \<Rightarrow> attrs" where
  "example_sizes file =
     (if file = ''d.unw'' then attrs_of ''50'' ''80'' else attrs_of ''100'' ''80'')"


section \<open>load\_data.py: the incremental container writer\<close>

subsection \<open>Paths and strings\<close>

definition basename :: "string \<Rightarrow> string" where
  \<comment> \<open>\<^verbatim>\<open>os.path.basename\<close>: what follows the last slash.\<close>
  "basename p = rev (takeWhile (\<lambda>c. c \<noteq> CHR ''/'') (rev p))"

definition dirname :: "string \<Rightarrow> string" where
  \<comment> \<open>\<^verbatim>\<open>os.path.dirname\<close>: the head up to the last slash, trailing slashes stripped
      unless the head consists of slashes only.\<close>
  "dirname p =
     (let head = rev (dropWhile (\<lambda>c. c \<noteq> CHR ''/'') (rev p))
      in if head \<noteq> [] \<and> \<not> (\<forall>c \<in> set head. c = CHR ''/'')
         then rev (dropWhile (\<lambda>c. c = CHR ''/'') (rev head)) else head)"

fun split_on :: "char \<Rightarrow> string \<Rightarrow> string list" where
  \<comment> \<open>\<^verbatim>\<open>s.split(c)\<close> for a one-character separator.\<close>
  "split_on c [] = [[]]"
| "split_on c (x # xs) =
     (if x = c then [] # split_on c xs
      else (x # hd (split_on c xs)) # tl (split_on c xs))"

subsection \<open>Containers\<close>

text \<open>
  A multi-group container: file-type group, epoch-id subgroup, and in it the raster
  dataset (named like the subgroup) with the attribute dictionary of the subgroup. Keys
  are kept in association lists; \<open>'d\<close> is the raster type. A path holds no file, an
  unreadable file, or a container.
\<close>

type_synonym 'd epoch_groups = "(string \<times> 'd \<times> attrs) list"

type_synonym 'd h5 = "(string \<times> 'd epoch_groups) list"

datatype 'd h5obj = Unreadable | H5 "'d h5"

type_synonym 'd files = "string \<rightharpoonup> 'd h5obj"

text \<open>
  The functions of \<^verbatim>\<open>pysar._readfile\<close> are not part of the sources at hand and are
  parameters: the attributes of a source raster and of a readable container, the raster
  and attributes of a source, and the dictionary of a baseline file (\<open>None\<close> when reading
  it raises).
\<close>

record 'd readfile =
  read_attribute_rsc :: "string \<Rightarrow> attrs"
  read_attribute_h5 :: "'d h5 \<Rightarrow> attrs"
  readfile_read :: "string \<Rightarrow> 'd \<times> attrs"
  read_roipac_rsc :: "string \<Rightarrow> attrs option"

subsection \<open>\<^verbatim>\<open>check_existed_hdf5_file\<close>\<close>

text \<open>Lines 174-177: every stored epoch removes each candidate whose path contains it.\<close>

fun remove_files :: "string \<Rightarrow> string list \<Rightarrow> string list \<Rightarrow> error + string list" where
  "remove_files epoch [] outFileList = Inr outFileList"
| "remove_files epoch (file # rest) outFileList =
     (if sublist epoch file
      then (case py_remove file outFileList of Inl e \<Rightarrow> Inl e
            | Inr out \<Rightarrow> remove_files epoch rest out)
      else remove_files epoch rest outFileList)"

fun remove_existed :: "string list \<Rightarrow> string list \<Rightarrow> string list \<Rightarrow> error + string list" where
  "remove_existed [] roipacFileList outFileList = Inr outFileList"
| "remove_existed (epoch # rest) roipacFileList outFileList =
     (case remove_files epoch roipacFileList outFileList of Inl e \<Rightarrow> Inl e
      | Inr out \<Rightarrow> remove_existed rest roipacFileList out)"

text \<open>
  Lines 180-189. The two \<^verbatim>\<open>print\<close> statements of the mismatch branch concatenate the
  mode sizes and the container's sizes with strings, which raises when a mode is
  \<^verbatim>\<open>None\<close> or an attribute is absent.
\<close>

definition check_mode_size ::
  "(string \<Rightarrow> attrs) \<Rightarrow> attrs \<Rightarrow> string list \<Rightarrow> error + string list option" where
  "check_mode_size read_attribute atr outFileList =
     (if outFileList = [] then Inr (Some outFileList)
      else case check_file_size read_attribute outFileList None None of Inl e \<Rightarrow> Inl e
      | Inr (outFileList', mode_width, mode_length) \<Rightarrow>
     (case getitem atr ''WIDTH'' of Inl e \<Rightarrow> Inl e
      | Inr wd \<Rightarrow>
          if mode_width \<noteq> Some wd
          then (if mode_length = None \<or> mode_width = None then Inl TypeError
                else case getitem atr ''FILE_LENGTH'' of Inl e \<Rightarrow> Inl e
                     | Inr len \<Rightarrow> Inr None)
          else (case getitem atr ''FILE_LENGTH'' of Inl e \<Rightarrow> Inl e
                | Inr len \<Rightarrow>
                    if mode_length \<noteq> Some len
                    then (if mode_length = None \<or> mode_width = None then Inl TypeError
                          else Inr None)
                    else Inr (Some outFileList'))))"

definition check_existed_hdf5_file ::
  "'d readfile \<Rightarrow> 'd files \<Rightarrow> string list \<Rightarrow> string
     \<Rightarrow> 'd files \<times> (error + string list option)" where
  "check_existed_hdf5_file rf fs roipacFileList hdf5File =
     (if roipacFileList = [] then (fs, Inr (Some roipacFileList))
      else case fs hdf5File of
        None \<Rightarrow> (fs, Inr (Some roipacFileList))
      | Some Unreadable \<Rightarrow> (fs(hdf5File := None), Inr (Some roipacFileList))
      | Some (H5 h5) \<Rightarrow>
          let atr = read_attribute_h5 rf h5 in
          (fs,
           case getitem atr ''FILE_TYPE'' of Inl e \<Rightarrow> Inl e
           | Inr k \<Rightarrow>
          (case getitem (map_of h5) k of Inl e \<Rightarrow> Inl e
           | Inr groups \<Rightarrow>
          (case remove_existed (sort (map fst groups)) roipacFileList roipacFileList of
             Inl e \<Rightarrow> Inl e
           | Inr outFileList \<Rightarrow>
               check_mode_size (read_attribute_rsc rf) atr outFileList))))"

subsection \<open>\<^verbatim>\<open>roipac2multi_group_hdf5\<close>\<close>

definition baseline_attrs :: "'d readfile \<Rightarrow> string \<Rightarrow> attrs \<Rightarrow> attrs" where
  \<comment> \<open>Lines 249-256: the baseline file of a ROI\_PAC source is merged in when it can be
      read; every failure inside the \<^verbatim>\<open>try\<close> leaves the attributes as they were.\<close>
  "baseline_attrs rf file atr =
     (if atr ''PROCESSOR'' = Some ''roipac''
      then (case atr ''DATE12'' of None \<Rightarrow> atr
            | Some date12 \<Rightarrow>
           (case split_on CHR ''-'' date12 of
              [d1, d2] \<Rightarrow>
                (case read_roipac_rsc rf (dirname file @ ''/'' @ d1 @ ''_'' @ d2 @ ''_baseline.rsc'') of
                   None \<Rightarrow> atr
                 | Some baseline_rsc \<Rightarrow> atr ++ baseline_rsc)
            | _ \<Rightarrow> atr))
      else atr)"

definition pysar_attrs :: "attrs \<Rightarrow> attrs \<Rightarrow> attrs" where
  \<comment> \<open>Lines 259-261.\<close>
  "pysar_attrs extra_meta_dict atr =
     atr(''drop_ifgram'' \<mapsto> ''no'',
         ''PROJECT_NAME'' \<mapsto> (case extra_meta_dict ''project_name'' of
                                 None \<Rightarrow> ''PYSAR'' | Some name \<Rightarrow> name))"

definition open_group :: "string \<Rightarrow> 'd h5 \<Rightarrow> 'd h5" where
  \<comment> \<open>Lines 239-242: the file-type group is created when the file does not have it.\<close>
  "open_group fileType h5 = (if fileType \<in> fst ` set h5 then h5 else h5 @ [(fileType, [])])"

text \<open>
  Lines 244-269, one candidate per step, each written to the open file before the next is
  read; \<^verbatim>\<open>create_group\<close> raises when the name exists already.
\<close>

fun write_files ::
  "'d readfile \<Rightarrow> attrs \<Rightarrow> string \<Rightarrow> string list \<Rightarrow> 'd h5 \<Rightarrow> 'd h5 \<times> (error + unit)" where
  "write_files rf extra_meta_dict fileType [] h5 = (h5, Inr ())"
| "write_files rf extra_meta_dict fileType (file # rest) h5 =
     (case readfile_read rf file of (data, atr0) \<Rightarrow>
        let atr = pysar_attrs extra_meta_dict (baseline_attrs rf file atr0);
            gg = (case map_of h5 fileType of None \<Rightarrow> [] | Some g \<Rightarrow> g)
        in if basename file \<in> fst ` set gg then (h5, Inl ValueError)
           else write_files rf extra_meta_dict fileType rest
                  (AList.update fileType (gg @ [(basename file, data, atr)]) h5))"

definition write_hdf5 ::
  "'d readfile \<Rightarrow> attrs \<Rightarrow> string \<Rightarrow> string list \<Rightarrow> string \<Rightarrow> 'd h5 \<Rightarrow> 'd files
     \<Rightarrow> 'd files \<times> (error + string option \<times> string list option)" where
  \<comment> \<open>Lines 237-275 with the file open on the content \<open>h5\<close>.\<close>
  "write_hdf5 rf extra_meta_dict fileType fileList hdf5File h5 fs =
     (case write_files rf extra_meta_dict fileType fileList (open_group fileType h5) of
        (h5', Inl e) \<Rightarrow> (fs(hdf5File \<mapsto> H5 h5'), Inl e)
      | (h5', Inr u) \<Rightarrow> (fs(hdf5File \<mapsto> H5 h5'), Inr (Some hdf5File, Some fileList)))"

definition roipac2multi_group_hdf5 ::
  "'d readfile \<Rightarrow> 'd files \<Rightarrow> string \<Rightarrow> string list \<Rightarrow> string \<Rightarrow> attrs
     \<Rightarrow> 'd files \<times> (error + string option \<times> string list option)" where
  "roipac2multi_group_hdf5 rf fs fileType fileList0 hdf5File extra_meta_dict =
     (if fileList0 = [] then (fs, Inl IndexError)
      else case check_file_size (read_attribute_rsc rf) fileList0 None None of
        Inl e \<Rightarrow> (fs, Inl e)
      | Inr (fileList, mode_width, mode_length) \<Rightarrow>
          if fileList = [] then (fs, Inr (None, None))
          else (case check_existed_hdf5_file rf fs fileList hdf5File of
                  (fs1, Inl e) \<Rightarrow> (fs1, Inl e)
                | (fs1, Inr fileList2) \<Rightarrow>
                    if fileList2 = Some fileList
                    then write_hdf5 rf extra_meta_dict fileType fileList hdf5File [] fs1
                    else (case fileList2 of
                            Some (file # rest) \<Rightarrow>
                              (case fs1 hdf5File of
                                 Some (H5 h5) \<Rightarrow>
                                   write_hdf5 rf extra_meta_dict fileType (file # rest) hdf5File h5 fs1
                               | _ \<Rightarrow> (fs1, Inl IOError))
                          | _ \<Rightarrow> (fs1, Inr (Some hdf5File, None)))))"

definition epoch_ids :: "'d files \<Rightarrow> string \<Rightarrow> string \<Rightarrow> string list option" where
  \<comment> \<open>The epoch ids a container stores under a file-type group, for stating results.\<close>
  "epoch_ids fs hdf5File fileType =
     (case fs hdf5File of
        Some (H5 h5) \<Rightarrow> (case map_of h5 fileType of None \<Rightarrow> None | Some g \<Rightarrow> Some (map fst g))
      | _ \<Rightarrow> None)"

text \<open>
  A concrete setting for the examples: a readable interferogram container with the epochs
  \<^verbatim>\<open>A.unw\<close> and \<^verbatim>\<open>B.unw\<close>, and sources of the container's size.
\<close>

definition example_h5 :: "nat h5" where
  "example_h5 =
     [(''interferograms'',
       [(''A.unw'', 1, attrs_of ''100'' ''80''), (''B.unw'', 2, attrs_of ''100'' ''80'')])]"

definition example_h5_attrs :: attrs where
  "example_h5_attrs =
     [''FILE_TYPE'' \<mapsto> ''interferograms'', ''WIDTH'' \<mapsto> ''100'', ''FILE_LENGTH'' \<mapsto> ''80'']"

definition example_rf :: "nat readfile" where
  "example_rf =
     \<lparr> read_attribute_rsc = (\<lambda>file. attrs_of ''100'' ''80''),
       read_attribute_h5 = (\<lambda>h5. example_h5_attrs),
       readfile_read = (\<lambda>file. (length file, attrs_of ''100'' ''80'')),
       read_roipac_rsc = (\<lambda>file. None) \<rparr>"

definition example_files :: "nat files" where
  "example_files = [''unwrapIfgram.h5'' \<mapsto> H5 example_h5]"


section \<open>seed\_data.py: rasters, attributes and files\<close>

text \<open>
  A raster value is a real number or the missing value \<^verbatim>\<open>NaN\<close>; rounding is not
  modelled. A raster is a list of rows. Subtracting a scalar, \<^verbatim>\<open>data -= r\<close>, acts on every
  element, and every operation with \<^verbatim>\<open>NaN\<close> gives \<^verbatim>\<open>NaN\<close>.
\<close>

datatype pixel = NaN | Val real

type_synonym raster = "pixel list list"

fun psub :: "pixel \<Rightarrow> pixel \<Rightarrow> pixel" where
  "psub (Val a) (Val b) = Val (a - b)"
| "psub a b = NaN"

definition sub_raster :: "raster \<Rightarrow> pixel \<Rightarrow> raster" where
  "sub_raster data r = map (map (\<lambda>v. psub v r)) data"

definition index2 :: "'a list list \<Rightarrow> int \<Rightarrow> int \<Rightarrow> error + 'a" where
  \<comment> \<open>\<^verbatim>\<open>a[y, x]\<close> on a two-dimensional array: a negative index counts from the end, an
      index out of range raises IndexError.\<close>
  "index2 a y x =
     (let nrow = int (length a);
          y' = (if y < 0 then y + nrow else y)
      in if y' < 0 \<or> nrow \<le> y' then Inl IndexError
         else let row = a ! nat y';
                  ncol = int (length row);
                  x' = (if x < 0 then x + ncol else x)
              in if x' < 0 \<or> ncol \<le> x' then Inl IndexError
                 else Inr (row ! nat x'))"

text \<open>
  Attribute values written by the seeding code are strings, integers (the reference
  row and column) or numbers returned by the coordinate conversion.
\<close>

datatype aval = AStr string | AInt int | AReal real

type_synonym avattrs = "string \<rightharpoonup> aval"

definition truthy_int :: "int option \<Rightarrow> bool" where
  \<comment> \<open>Truth value of \<^verbatim>\<open>None\<close> or an integer: zero is false.\<close>
  "truthy_int v = (case v of None \<Rightarrow> False | Some i \<Rightarrow> i \<noteq> 0)"

definition truthy_real :: "real option \<Rightarrow> bool" where
  "truthy_real v = (case v of None \<Rightarrow> False | Some r \<Rightarrow> r \<noteq> 0)"

text \<open>
  A file to seed. A multi-epoch file has one group named by its file type, with the
  group's attributes and one entry per epoch: for \<^verbatim>\<open>timeseries\<close> each entry is a dataset
  of the group, for the interferogram types each entry is a subgroup holding the dataset
  and the subgroup's attributes. The layout is taken to be the one of the file type. A
  single-dataset file is what \<^verbatim>\<open>readfile.read\<close> returns and \<^verbatim>\<open>writefile.write\<close> takes.
\<close>

datatype seedfile =
    Multi string "(string \<times> raster \<times> avattrs) list" avattrs
  | SingleDataset raster avattrs

type_synonym seedfiles = "string \<rightharpoonup> seedfile"

text \<open>
  What the seeding code takes from modules that are not part of the sources at hand, and
  from its surroundings: \<^verbatim>\<open>readfile.read_attribute\<close> on a file, Python's \<^verbatim>\<open>str\<close> on an
  attribute value that is a number, \<^verbatim>\<open>subset.coord_radar2geo\<close>, the conversion of a
  latitude and longitude into a row and column (\<^verbatim>\<open>subset.coord_geo2radar\<close> or
  \<^verbatim>\<open>ut.glob2radar\<close>), the raster of the mask file and of the coherence file, whether the
  coherence file exists, \<^verbatim>\<open>ut.get_file_stack\<close>, \<^verbatim>\<open>ut.spatial_average\<close>,
  \<^verbatim>\<open>ut.add_attribute\<close>, the numbers drawn by \<^verbatim>\<open>random.choice\<close>, and the pixels
  clicked in the window of the manual selection.
\<close>

record seed_env =
  read_attribute_file :: "seedfile \<Rightarrow> attrs"
  str_number :: "aval \<Rightarrow> string"
  coord_radar2geo :: "aval \<Rightarrow> avattrs \<Rightarrow> string \<Rightarrow> aval"
  geo2radar :: "real \<Rightarrow> real \<Rightarrow> int \<times> int"
  file_length :: int
  file_width :: int
  mask_raster :: raster
  coherence_raster :: raster
  coherence_isfile :: bool
  file_stack :: raster
  spatial_average :: "seedfile \<Rightarrow> bool list list \<Rightarrow> int \<times> int \<times> int \<times> int \<Rightarrow> pixel list"
  add_attribute :: "seedfiles \<Rightarrow> string \<Rightarrow> avattrs \<Rightarrow> seedfiles \<times> string"
  random_draws :: "nat list"
  clicks :: "(int \<times> int) list"


section \<open>seed\_data.py: the re-referencing transform\<close>

definition py_str :: "seed_env \<Rightarrow> aval \<Rightarrow> string" where
  "py_str env v = (case v of AStr s \<Rightarrow> s | _ \<Rightarrow> str_number env v)"

definition seed_attributes :: "seed_env \<Rightarrow> avattrs \<Rightarrow> aval \<Rightarrow> aval \<Rightarrow> avattrs" where
  "seed_attributes env atr_in x y =
     (let atr = (\<lambda>key. map_option (\<lambda>value. AStr (py_str env value)) (atr_in key));
          atr = atr(''ref_y'' \<mapsto> y, ''ref_x'' \<mapsto> x)
      in if atr ''X_FIRST'' \<noteq> None
         then (let atr = atr(''ref_lat'' \<mapsto> coord_radar2geo env y atr ''y'')
               in atr(''ref_lon'' \<mapsto> coord_radar2geo env x atr ''x''))
         else atr)"

definition multi_types :: "string list" where
  "multi_types = [''timeseries'', ''interferograms'', ''wrapped'', ''coherence'']"

definition epoch_list :: "(string \<times> raster \<times> avattrs) list \<Rightarrow> string list" where
  \<comment> \<open>\<^verbatim>\<open>sorted(h5file[k].keys())\<close>\<close>
  "epoch_list entries = sort (map fst entries)"

definition epoch_data :: "(string \<times> raster \<times> avattrs) list \<Rightarrow> string \<Rightarrow> raster" where
  "epoch_data entries epoch = (case map_of entries epoch of Some (data, a) \<Rightarrow> data | None \<Rightarrow> [])"

definition epoch_attrs :: "(string \<times> raster \<times> avattrs) list \<Rightarrow> string \<Rightarrow> avattrs" where
  "epoch_attrs entries epoch = (case map_of entries epoch of Some (data, a) \<Rightarrow> a | None \<Rightarrow> Map.empty)"

text \<open>
  The two loops of lines 77-106, over \<^verbatim>\<open>range(epochNum)\<close>: the epoch \<^verbatim>\<open>epochList[i]\<close>
  is read, \<^verbatim>\<open>refList[i]\<close> is subtracted, and the result is written under the same name.
  The loops run after the check of the epoch number, so both lists have the same length
  and every epoch is a key of the input. The progress bar and \<^verbatim>\<open>list_ifgram2date12\<close>
  serve the display only and are left out.
\<close>

definition seed_timeseries ::
  "(string \<times> raster \<times> avattrs) list \<Rightarrow> string list \<Rightarrow> pixel list
     \<Rightarrow> (string \<times> raster \<times> avattrs) list" where
  "seed_timeseries entries epochList refList =
     map (\<lambda>(epoch, r). (epoch, sub_raster (epoch_data entries epoch) r, Map.empty))
       (zip epochList refList)"

definition seed_ifgrams ::
  "seed_env \<Rightarrow> (string \<times> raster \<times> avattrs) list \<Rightarrow> string list \<Rightarrow> pixel list
     \<Rightarrow> aval \<Rightarrow> aval \<Rightarrow> (string \<times> raster \<times> avattrs) list" where
  "seed_ifgrams env entries epochList refList ref_x ref_y =
     map (\<lambda>(epoch, r). (epoch, sub_raster (epoch_data entries epoch) r,
                         seed_attributes env (epoch_attrs entries epoch) ref_x ref_y))
       (zip epochList refList)"

definition sub_single :: "raster \<Rightarrow> pixel list \<Rightarrow> error + raster" where
  \<comment> \<open>\<^verbatim>\<open>data -= refList\<close> on a single raster: a list of one value is subtracted from every
      element, a list as long as the rows from every row, any other list raises.\<close>
  "sub_single data refList =
     (if length refList = 1 then Inr (sub_raster data (hd refList))
      else if list_all (\<lambda>row. length row = length refList) data
      then Inr (map (\<lambda>row. map (\<lambda>(v, r). psub v r) (zip row refList)) data)
      else Inl ValueError)"

text \<open>
  The input stays open for reading (line 58) while the output is opened with mode
  \<^verbatim>\<open>w\<close> (line 71), after the check of the epoch number: when both are the same file
  the open fails and nothing is written.
\<close>

definition seed_file_reference_value ::
  "seed_env \<Rightarrow> seedfiles \<Rightarrow> string \<Rightarrow> string \<Rightarrow> pixel list \<Rightarrow> aval \<Rightarrow> aval
     \<Rightarrow> seedfiles \<times> (error + string)" where
  "seed_file_reference_value env fs File outName refList ref_y ref_x =
     (case fs File of
        None \<Rightarrow> (fs, Inl IOError)
      | Some file \<Rightarrow>
          let atr = read_attribute_file env file in
          (case getitem atr ''FILE_TYPE'' of
             Inl e \<Rightarrow> (fs, Inl e)
           | Inr k \<Rightarrow>
               if k \<in> set multi_types
               then (case file of
                       SingleDataset data a \<Rightarrow> (fs, Inl IOError)
                     | Multi k' entries gattrs \<Rightarrow>
                         if k' \<noteq> k then (fs, Inl KeyError)
                         else let epochList = epoch_list entries;
                                  epochNum = length epochList
                              in if epochNum \<noteq> length refList then (fs, Inl (SystemExit 1))
                                 else if outName = File then (fs, Inl IOError)
                                 else if k = ''timeseries''
                                 then (fs(outName \<mapsto>
                                         Multi k (seed_timeseries entries epochList refList)
                                           (seed_attributes env (map_option AStr \<circ> atr) ref_x ref_y)),
                                       Inr outName)
                                 else (fs(outName \<mapsto>
                                         Multi k (seed_ifgrams env entries epochList refList ref_x ref_y)
                                           Map.empty),
                                       Inr outName))
               else (case file of
                       Multi k' entries gattrs \<Rightarrow> (fs, Inl IOError)
                     | SingleDataset data a \<Rightarrow>
                         (case sub_single data refList of
                            Inl e \<Rightarrow> (fs, Inl e)
                          | Inr data' \<Rightarrow>
                              (fs(outName \<mapsto> SingleDataset data' (seed_attributes env a ref_x ref_y)),
                               Inr outName)))))"

text \<open>Reading a multi-epoch file back, for stating results.\<close>

definition file_epochs :: "seedfiles \<Rightarrow> string \<Rightarrow> string list" where
  "file_epochs fs name =
     (case fs name of Some (Multi k entries gattrs) \<Rightarrow> epoch_list entries | _ \<Rightarrow> [])"

definition file_raster :: "seedfiles \<Rightarrow> string \<Rightarrow> string \<Rightarrow> raster" where
  "file_raster fs name epoch =
     (case fs name of Some (Multi k entries gattrs) \<Rightarrow> epoch_data entries epoch | _ \<Rightarrow> [])"

definition raster_at :: "raster \<Rightarrow> nat \<Rightarrow> nat \<Rightarrow> pixel" where
  "raster_at data y x = data ! y ! x"


section \<open>seed\_data.py: the reference-point resolver\<close>

text \<open>
  The input namespace, after the command line, the template and the reference file have
  been read (lines 446-461); the field \<open>seed_method\<close> is \<^verbatim>\<open>inps.method\<close>. The assignment \<^verbatim>\<open>inps.ref_y = ''\<close> of the global-average
  method is kept as \<open>None\<close>: both are false and neither is a number.
\<close>

record inps =
  mask_file :: "string option"
  coherence_file :: "string option"
  min_coherence :: real
  seed_method :: string
  ref_y :: "int option"
  ref_x :: "int option"
  ref_lat :: "real option"
  ref_lon :: "real option"
  mark_attribute :: bool

definition valid_mask :: "raster \<Rightarrow> bool list list" where
  \<comment> \<open>\<^verbatim>\<open>mask = ~np.isnan(stack)\<close>\<close>
  "valid_mask stack = map (map (\<lambda>p. p \<noteq> NaN)) stack"

definition count_true :: "bool list list \<Rightarrow> nat" where
  \<comment> \<open>\<^verbatim>\<open>np.nansum(mask)\<close> on a boolean array\<close>
  "count_true vmask = length (filter (\<lambda>b. b) (concat vmask))"

definition grid_shape :: "'a list list \<Rightarrow> int \<Rightarrow> int \<Rightarrow> bool" where
  \<comment> \<open>An array of the given number of rows and columns.\<close>
  "grid_shape a nrow ncol = (int (length a) = nrow \<and> list_all (\<lambda>row. int (length row) = ncol) a)"

subsection \<open>Selection strategies\<close>

text \<open>
  \<^verbatim>\<open>random.choice(range(n))\<close> takes the element of \<^verbatim>\<open>range(n)\<close> that the next number
  of the random source selects, and raises IndexError on an empty range. The loop of
  lines 282-286 draws a row and a column until the pixel drawn is set; it does not return
  when the random source never hits such a pixel, which is the result \<open>None\<close> here.
\<close>

fun random_loop :: "bool list list \<Rightarrow> nat \<Rightarrow> nat \<Rightarrow> nat list \<Rightarrow> (int \<times> int) option" where
  "random_loop data_mat nrow ncol (ry # rx # draws) =
     (let y = ry mod nrow; x = rx mod ncol
      in if data_mat ! y ! x then Some (int y, int x)
         else random_loop data_mat nrow ncol draws)"
| "random_loop data_mat nrow ncol draws = None"

definition random_select_reference_yx ::
  "bool list list \<Rightarrow> nat list \<Rightarrow> (error + int \<times> int) option" where
  "random_select_reference_yx data_mat draws =
     (let nrow = length data_mat;
          ncol = (case data_mat of [] \<Rightarrow> 0 | row # rows \<Rightarrow> length row)
      in if nrow = 0 \<or> ncol = 0 then Some (Inl IndexError)
         else map_option Inr (random_loop data_mat nrow ncol draws))"

definition coherence_mask :: "raster \<Rightarrow> bool list list \<Rightarrow> real \<Rightarrow> bool list list" where
  \<comment> \<open>Lines 265-266: \<^verbatim>\<open>coh[mask==0] = 0.0; coh_mask = coh >= min_coh\<close>\<close>
  "coherence_mask coh vmask min_coh =
     map (\<lambda>(crow, mrow).
            map (\<lambda>(c, m). case (if m then c else Val 0) of
                             Val v \<Rightarrow> min_coh \<le> v | NaN \<Rightarrow> False)
              (zip crow mrow))
       (zip coh vmask)"

definition select_max_coherence_yx ::
  "seed_env \<Rightarrow> bool list list \<Rightarrow> real \<Rightarrow> (error + int \<times> int) option" where
  \<comment> \<open>Reading a coherence file that does not exist raises; indexing the coherence with a
      mask of another shape raises.\<close>
  "select_max_coherence_yx env vmask min_coh =
     (if \<not> coherence_isfile env then Some (Inl IOError)
      else if map length (coherence_raster env) \<noteq> map length vmask then Some (Inl IndexError)
      else random_select_reference_yx
             (coherence_mask (coherence_raster env) vmask min_coh) (random_draws env))"

text \<open>
  The manual selection: every click on a pixel whose stack value is not \<^verbatim>\<open>NaN\<close> sets
  the reference; a click that is no pixel of the stack sets nothing.
\<close>

fun manual_select_reference_yx :: "raster \<Rightarrow> (int \<times> int) list \<Rightarrow> inps \<Rightarrow> inps" where
  "manual_select_reference_yx stack [] inps = inps"
| "manual_select_reference_yx stack ((y, x) # rest) inps =
     manual_select_reference_yx stack rest
       (case index2 stack y x of
          Inr (Val v) \<Rightarrow> inps\<lparr>ref_y := Some y, ref_x := Some x\<rparr>
        | _ \<Rightarrow> inps)"

subsection \<open>\<^verbatim>\<open>seed_file_inps\<close>\<close>

definition outfile_name :: "string option \<Rightarrow> string \<Rightarrow> string" where
  \<comment> \<open>Line 132\<close>
  "outfile_name outFile File =
     (case outFile of
        None \<Rightarrow> ''Seeded_'' @ basename File
      | Some name \<Rightarrow> if name = [] then ''Seeded_'' @ basename File else name)"

definition find_reference_yx ::
  "seed_env \<Rightarrow> bool list list \<Rightarrow> raster \<Rightarrow> inps \<Rightarrow> (inps \<times> error option) option" where
  \<comment> \<open>Lines 167-174: the namespace after the search, with the error raised in it if any.\<close>
  "find_reference_yx env vmask stack inps =
     (if \<not> truthy_int (ref_y inps) \<or> \<not> truthy_int (ref_x inps)
      then if truthy_str (coherence_file inps)
           then (case select_max_coherence_yx env vmask (min_coherence inps) of
                   None \<Rightarrow> None
                 | Some (Inl e) \<Rightarrow> Some (inps\<lparr>seed_method := ''max-coherence''\<rparr>, Some e)
                 | Some (Inr (y, x)) \<Rightarrow>
                     Some (inps\<lparr>seed_method := ''max-coherence'', ref_y := Some y, ref_x := Some x\<rparr>,
                           None))
           else if seed_method inps = ''random''
           then (case random_select_reference_yx vmask (random_draws env) of
                   None \<Rightarrow> None
                 | Some (Inl e) \<Rightarrow> Some (inps, Some e)
                 | Some (Inr (y, x)) \<Rightarrow> Some (inps\<lparr>ref_y := Some y, ref_x := Some x\<rparr>, None))
           else if seed_method inps = ''manual''
           then Some (manual_select_reference_yx stack (clicks env) inps, None)
           else Some (inps, None)
      else Some (inps, None))"

definition seed_yx ::
  "seed_env \<Rightarrow> seedfiles \<Rightarrow> string \<Rightarrow> seedfile \<Rightarrow> string \<Rightarrow> bool \<Rightarrow> bool list list
     \<Rightarrow> int \<Rightarrow> int \<Rightarrow> seedfiles \<times> (error + string)" where
  \<comment> \<open>Lines 178-189: the file is seeded with the reference pixel.\<close>
  "seed_yx env fs File file outFile mark vmask y x =
     (if mark
      then (case add_attribute env fs File [''ref_x'' \<mapsto> AInt x, ''ref_y'' \<mapsto> AInt y] of
              (fs', name) \<Rightarrow> (fs', Inr name))
      else seed_file_reference_value env fs File outFile
             (spatial_average env file vmask (x, y, x + 1, y + 1)) (AInt y) (AInt x))"

definition seed_reference_yx ::
  "seed_env \<Rightarrow> seedfiles \<Rightarrow> string \<Rightarrow> seedfile \<Rightarrow> string \<Rightarrow> bool list list \<Rightarrow> inps
     \<Rightarrow> seedfiles \<times> (error + string)" where
  \<comment> \<open>Lines 176-191: seeding with the reference found, or ValueError.\<close>
  "seed_reference_yx env fs File file outFile vmask inps =
     (case (ref_y inps, ref_x inps) of
        (Some y, Some x) \<Rightarrow>
          if y \<noteq> 0 \<and> x \<noteq> 0
          then (case index2 vmask y x of
                  Inl e \<Rightarrow> (fs, Inl e)
                | Inr valid \<Rightarrow>
                    if valid
                    then seed_yx env fs File file outFile (mark_attribute inps) vmask y x
                    else (fs, Inl ValueError))
          else (fs, Inl ValueError)
      | _ \<Rightarrow> (fs, Inl ValueError))"

definition seed_file_inps ::
  "seed_env \<Rightarrow> seedfiles \<Rightarrow> string \<Rightarrow> inps \<Rightarrow> string option
     \<Rightarrow> (inps \<times> seedfiles \<times> (error + string)) option" where
  "seed_file_inps env fs File inps outFile0 =
     (case fs File of
        None \<Rightarrow> Some (inps, fs, Inl IOError)
      | Some file \<Rightarrow>
          let outFile = outfile_name outFile0 File;
              stack = file_stack env;
              vmask = valid_mask stack
          in if count_true vmask = 0 then Some (inps, fs, Inl (SystemExit 1))
             else if seed_method inps = ''global-average''
             then (case seed_file_reference_value env fs File outFile
                          (spatial_average env file vmask (0, 0, file_width env, file_length env))
                          (AStr []) (AStr []) of
                     (fs', r) \<Rightarrow> Some (inps\<lparr>ref_y := None, ref_x := None\<rparr>, fs', r))
             else (case find_reference_yx env vmask stack inps of
                     None \<Rightarrow> None
                   | Some (inps1, Some e) \<Rightarrow> Some (inps1, fs, Inl e)
                   | Some (inps1, None) \<Rightarrow>
                       (case seed_reference_yx env fs File file outFile vmask inps1 of
                          (fs', r) \<Rightarrow> Some (inps1, fs', r))))"

subsection \<open>\<^verbatim>\<open>main\<close>\<close>

definition main_latlon :: "seed_env \<Rightarrow> inps \<Rightarrow> inps" where
  \<comment> \<open>Lines 470-477\<close>
  "main_latlon env inps =
     (case (ref_lat inps, ref_lon inps) of
        (Some lat, Some lon) \<Rightarrow>
          if lat \<noteq> 0 \<and> lon \<noteq> 0
          then (case geo2radar env lat lon of
                  (y, x) \<Rightarrow> inps\<lparr>ref_y := Some y, ref_x := Some x\<rparr>)
          else inps
      | _ \<Rightarrow> inps)"

definition main_coverage :: "seed_env \<Rightarrow> inps \<Rightarrow> inps" where
  \<comment> \<open>Lines 481-487\<close>
  "main_coverage env inps =
     (case (ref_y inps, ref_x inps) of
        (Some y, Some x) \<Rightarrow>
          if y \<noteq> 0 \<and> x \<noteq> 0
             \<and> \<not> (0 \<le> y \<and> y \<le> file_length env \<and> 0 \<le> x \<and> x \<le> file_width env)
          then inps\<lparr>ref_y := None, ref_x := None\<rparr>
          else inps
      | _ \<Rightarrow> inps)"

definition main_masked :: "seed_env \<Rightarrow> inps \<Rightarrow> error + inps" where
  \<comment> \<open>Lines 489-497\<close>
  "main_masked env inps =
     (case (ref_y inps, ref_x inps) of
        (Some y, Some x) \<Rightarrow>
          if y \<noteq> 0 \<and> x \<noteq> 0 \<and> truthy_str (mask_file inps)
          then (case index2 (mask_raster env) y x of
                  Inl e \<Rightarrow> Inl e
                | Inr v \<Rightarrow> if v = Val 0 then Inr (inps\<lparr>ref_y := None, ref_x := None\<rparr>)
                           else Inr inps)
          else Inr inps
      | _ \<Rightarrow> Inr inps)"

definition main_method :: "seed_env \<Rightarrow> inps \<Rightarrow> inps" where
  \<comment> \<open>Lines 499-506\<close>
  "main_method env inps =
     (if truthy_int (ref_y inps) \<and> truthy_int (ref_x inps)
      then inps\<lparr>seed_method := ''input-coord''\<rparr>
      else if truthy_str (coherence_file inps)
      then (if coherence_isfile env then inps\<lparr>seed_method := ''max-coherence''\<rparr>
            else inps\<lparr>coherence_file := None\<rparr>)
      else inps)"

definition main_from_yx ::
  "seed_env \<Rightarrow> seedfiles \<Rightarrow> string \<Rightarrow> inps \<Rightarrow> string option
     \<Rightarrow> (inps \<times> seedfiles \<times> (error + string)) option" where
  \<comment> \<open>Lines 481-527 for one input file.\<close>
  "main_from_yx env fs File inps outfile =
     (case main_masked env (main_coverage env inps) of
        Inl e \<Rightarrow> Some (main_coverage env inps, fs, Inl e)
      | Inr inps' \<Rightarrow> seed_file_inps env fs File (main_method env inps') outfile)"

definition main ::
  "seed_env \<Rightarrow> seedfiles \<Rightarrow> string \<Rightarrow> inps \<Rightarrow> string option
     \<Rightarrow> (inps \<times> seedfiles \<times> (error + string)) option" where
  "main env fs File inps outfile = main_from_yx env fs File (main_latlon env inps) outfile"


section \<open>A concrete setting for the seeding examples\<close>

text \<open>
  Modelled from the spec: \<^verbatim>\<open>ut.spatial_average\<close> is missing from the sources at hand. The
  specification's windowed masked mean gives, for each epoch in sorted order, the mean of
  the epoch's values over the pixels of the box where the mask is true; for a box of one
  pixel this is the pixel's value. The box is \<^verbatim>\<open>(x0, y0, x1, y1)\<close>. The examples use it
  as the \<open>spatial_average\<close> of their environment.
\<close>

definition box_values :: "raster \<Rightarrow> bool list list \<Rightarrow> int \<times> int \<times> int \<times> int \<Rightarrow> pixel list" where
  "box_values data vmask box =
     (case box of (x0, y0, x1, y1) \<Rightarrow>
        concat (map (\<lambda>y. map (\<lambda>x. data ! y ! x)
                          (filter (\<lambda>x. vmask ! y ! x) [nat x0 ..< nat x1]))
                  [nat y0 ..< nat y1]))"

fun pixel_sum :: "pixel list \<Rightarrow> pixel" where
  "pixel_sum [] = Val 0"
| "pixel_sum (NaN # vs) = NaN"
| "pixel_sum (Val a # vs) = (case pixel_sum vs of NaN \<Rightarrow> NaN | Val b \<Rightarrow> Val (a + b))"

definition masked_mean :: "pixel list \<Rightarrow> pixel" where
  "masked_mean vs =
     (if vs = [] then NaN
      else case pixel_sum vs of NaN \<Rightarrow> NaN | Val s \<Rightarrow> Val (s / real (length vs)))"

definition windowed_masked_mean ::
  "seedfile \<Rightarrow> bool list list \<Rightarrow> int \<times> int \<times> int \<times> int \<Rightarrow> pixel list" where
  "windowed_masked_mean file vmask box =
     (case file of
        Multi k entries gattrs \<Rightarrow>
          map (\<lambda>epoch. masked_mean (box_values (epoch_data entries epoch) vmask box))
            (epoch_list entries)
      | SingleDataset data a \<Rightarrow> [masked_mean (box_values data vmask box)])"

text \<open>
  A time series of two epochs on a grid of three rows and three columns, whose stack
  misses the centre pixel; a coherence raster that is high in the last row's last pixel
  only; a random source whose first draw is that pixel.
\<close>

definition example_ts :: seedfile where
  "example_ts =
     Multi ''timeseries''
       [(''20090201'', [[Val 2, Val 4, Val 6], [Val 8, Val 10, Val 12], [Val 14, Val 16, Val 18]],
         Map.empty),
        (''20090101'', [[Val 1, Val 2, Val 3], [Val 4, Val 5, Val 6], [Val 7, Val 8, Val 9]],
         Map.empty)]
       Map.empty"

definition example_seedfiles :: seedfiles where
  "example_seedfiles = [''ts.h5'' \<mapsto> example_ts]"

definition example_env :: seed_env where
  "example_env =
     \<lparr> read_attribute_file = (\<lambda>file. [''FILE_TYPE'' \<mapsto> ''timeseries'', ''WIDTH'' \<mapsto> ''3'',
                                        ''FILE_LENGTH'' \<mapsto> ''3'']),
       str_number = (\<lambda>v. ''0''),
       coord_radar2geo = (\<lambda>v atr axis. v),
       geo2radar = (\<lambda>lat lon. (2, 2)),
       file_length = 3,
       file_width = 3,
       mask_raster = [[Val 1, Val 1, Val 1], [Val 1, Val 1, Val 0], [Val 1, Val 1, Val 1]],
       coherence_raster = [[Val 0.1, Val 0.1, Val 0.1], [Val 0.1, Val 0.9, Val 0.1],
                           [Val 0.1, Val 0.1, Val 0.9]],
       coherence_isfile = True,
       file_stack = [[Val 3, Val 6, Val 9], [Val 12, NaN, Val 18], [Val 21, Val 24, Val 27]],
       spatial_average = windowed_masked_mean,
       add_attribute = (\<lambda>fs File atr. (fs, File)),
       random_draws = [2, 2],
       clicks = [] \<rparr>"

definition example_inps :: inps where
  "example_inps =
     \<lparr> mask_file = None, coherence_file = None, min_coherence = 0.85,
       seed_method = ''random'', ref_y = None, ref_x = None, ref_lat = None, ref_lon = None,
       mark_attribute = False \<rparr>"

section \<open>Properties of the statistical mode\<close>

lemma max_scan_upper:
  "max_scan items (mi, mc) = (mi', mc') \<Longrightarrow> mc \<le> mc' \<and> (\<forall>kv \<in> set items. snd kv \<le> mc')"
proof (induction items arbitrary: mi mc)
  case Nil
  then show ?case by simp
next
  case (Cons kv items)
  obtain k v where kv: "kv = (k, v)" by (cases kv)
  show ?case
  proof (cases "v > mc")
    case True
    with Cons.prems kv have "max_scan items (Some k, v) = (mi', mc')" by simp
    from Cons.IH [OF this] True kv show ?thesis by auto
  next
    case False
    with Cons.prems kv have "max_scan items (mi, mc) = (mi', mc')" by simp
    from Cons.IH [OF this] False kv show ?thesis by auto
  qed
qed

lemma max_scan_item:
  "max_scan items (mi, mc) = (mi', mc') \<Longrightarrow>
     (mc' = mc \<and> mi' = mi) \<or> (mc < mc' \<and> (\<exists>k. mi' = Some k \<and> (k, mc') \<in> set items))"
proof (induction items arbitrary: mi mc)
  case Nil
  then show ?case by simp
next
  case (Cons kv items)
  obtain k v where kv: "kv = (k, v)" by (cases kv)
  show ?case
  proof (cases "v > mc")
    case True
    with Cons.prems kv have "max_scan items (Some k, v) = (mi', mc')" by simp
    from Cons.IH [OF this] True kv show ?thesis by auto
  next
    case False
    with Cons.prems kv have "max_scan items (mi, mc) = (mi', mc')" by simp
    from Cons.IH [OF this] False kv show ?thesis by auto
  qed
qed

lemma count_list_map_filter:
  "count_list (map f ys) c = length (filter (\<lambda>y. f y = c) ys)"
  by (induction ys) auto

lemma count_two:
  assumes "a \<in> set ys" "b \<in> set ys" "a \<noteq> b" "f a = c" "f b = c"
  shows "2 \<le> count_list (map f ys) c"
proof -
  let ?F = "filter (\<lambda>y. f y = c) ys"
  have "{a, b} \<subseteq> set ?F" using assms by auto
  then have "card {a, b} \<le> card (set ?F)" by (intro card_mono) auto
  also have "\<dots> \<le> length ?F" by (rule card_length)
  finally show ?thesis using assms(3) by (simp add: count_list_map_filter)
qed

lemma count_one:
  assumes "distinct ys" "\<forall>y \<in> set ys. f y = c \<longrightarrow> y = a"
  shows "count_list (map f ys) c \<le> 1"
proof -
  let ?F = "filter (\<lambda>y. f y = c) ys"
  have d: "distinct ?F" using assms(1) by simp
  have "set ?F \<subseteq> {a}" using assms(2) by auto
  then have "card (set ?F) \<le> card {a}" by (intro card_mono) auto
  moreover have "card (set ?F) = length ?F" using d by (rule distinct_card)
  ultimately show ?thesis by (simp add: count_list_map_filter)
qed

lemma mode_items_Some_D:
  assumes "mode_items items = Some m"
  shows "\<exists>c. (m, c) \<in> set items \<and> 1 < c \<and> (\<forall>kv \<in> set items. kv \<noteq> (m, c) \<longrightarrow> snd kv < c)"
proof -
  obtain mi mc where ms: "max_scan items (None, 0) = (mi, mc)" by (cases "max_scan items (None, 0)")
  from assms ms have ne1: "mc \<noteq> 1" and cnt: "\<not> count_list (map snd items) mc > 1" and mi: "mi = Some m"
    by (auto simp: mode_items_def split: if_splits)
  from max_scan_item [OF ms] mi have pos: "0 < mc" and mem: "(m, mc) \<in> set items" by auto
  from max_scan_upper [OF ms] have up: "\<forall>kv \<in> set items. snd kv \<le> mc" by simp
  have "\<forall>kv \<in> set items. kv \<noteq> (m, mc) \<longrightarrow> snd kv < mc"
  proof (intro ballI impI)
    fix kv assume kv: "kv \<in> set items" "kv \<noteq> (m, mc)"
    show "snd kv < mc"
    proof (rule ccontr)
      assume "\<not> snd kv < mc"
      moreover from up kv have "snd kv \<le> mc" by blast
      ultimately have "snd kv = mc" by simp
      with count_two [OF kv(1) mem kv(2), of snd mc] cnt show False by simp
    qed
  qed
  with mem pos ne1 show ?thesis by (intro exI [of _ mc]) auto
qed

lemma mode_items_Some_I:
  assumes "distinct items" "(m, c) \<in> set items" "1 < c"
    and lt: "\<forall>kv \<in> set items. kv \<noteq> (m, c) \<longrightarrow> snd kv < c"
  shows "mode_items items = Some m"
proof -
  obtain mi mc where ms: "max_scan items (None, 0) = (mi, mc)" by (cases "max_scan items (None, 0)")
  from max_scan_upper [OF ms] assms(2) have "c \<le> mc" by force
  with assms(3) have pos: "0 < mc" "mc \<noteq> 1" by auto
  with max_scan_item [OF ms] obtain k where k: "mi = Some k" "(k, mc) \<in> set items" by auto
  have "(k, mc) = (m, c)"
  proof (rule ccontr)
    assume "(k, mc) \<noteq> (m, c)"
    with lt k(2) have "mc < c" by force
    with \<open>c \<le> mc\<close> show False by simp
  qed
  then have km: "k = m" "mc = c" by auto
  have "\<forall>kv \<in> set items. snd kv = c \<longrightarrow> kv = (m, c)" using lt by auto
  from count_one [OF assms(1) this] have "count_list (map snd items) c \<le> 1" .
  with ms k km pos show ?thesis by (simp add: mode_items_def)
qed

lemma mode_items_order_irrelevant:
  assumes "distinct items" "distinct items'" "set items' = set items"
  shows "mode_items items' = mode_items items"
proof (cases "mode_items items")
  case None
  show ?thesis
  proof (cases "mode_items items'")
    case (Some m)
    from mode_items_Some_D [OF Some] assms(3) obtain c where
      "(m, c) \<in> set items" "1 < c" "\<forall>kv \<in> set items. kv \<noteq> (m, c) \<longrightarrow> snd kv < c" by auto
    from mode_items_Some_I [OF assms(1) this] None show ?thesis by simp
  qed (simp add: None)
next
  case (Some m)
  from mode_items_Some_D [OF Some] assms(3) obtain c where
    "(m, c) \<in> set items'" "1 < c" "\<forall>kv \<in> set items'. kv \<noteq> (m, c) \<longrightarrow> snd kv < c" by auto
  from mode_items_Some_I [OF assms(2) this] Some show ?thesis by simp
qed


lemma count_item_keys: "map fst (count_item cs a) = (if a \<in> fst ` set cs then map fst cs else map fst cs @ [a])"
  by (induction cs a rule: count_item.induct) auto

lemma count_item_distinct: "distinct (map fst cs) \<Longrightarrow> distinct (map fst (count_item cs a))"
  by (simp add: count_item_keys)

lemma count_item_map_of:
  "map_of (count_item cs a) = (map_of cs)(a \<mapsto> (case map_of cs a of None \<Rightarrow> 1 | Some v \<Rightarrow> v + 1))"
  by (induction cs a rule: count_item.induct) (auto simp: fun_eq_iff)

lemma counts_of_distinct: "distinct (map fst cs) \<Longrightarrow> distinct (map fst (counts_of cs xs))"
  by (induction cs xs rule: counts_of.induct) (simp_all add: count_item_distinct)

lemma counts_of_map_of:
  "map_of (counts_of cs xs) k =
     (case map_of cs k of
        None \<Rightarrow> if k \<in> set xs then Some (count_list xs k) else None
      | Some v \<Rightarrow> Some (v + count_list xs k))"
  by (induction cs xs rule: counts_of.induct) (auto simp: count_item_map_of split: option.splits)

lemma counts_of_set: "set (counts_of [] xs) = (\<lambda>x. (x, count_list xs x)) ` set xs"
proof -
  have d: "distinct (map fst (counts_of [] xs))" by (rule counts_of_distinct) simp
  have "(k, v) \<in> set (counts_of [] xs) \<longleftrightarrow> (k \<in> set xs \<and> v = count_list xs k)" for k v
  proof -
    have "(k, v) \<in> set (counts_of [] xs) \<longleftrightarrow> map_of (counts_of [] xs) k = Some v"
      by (simp add: map_of_eq_Some_iff [OF d])
    also have "\<dots> \<longleftrightarrow> (k \<in> set xs \<and> v = count_list xs k)"
      by (auto simp: counts_of_map_of)
    finally show ?thesis .
  qed
  then show ?thesis by auto
qed

lemma fold_max_upper: "a \<le> fold max ys a \<and> (\<forall>y \<in> set ys. y \<le> fold max ys (a::nat))"
proof (induction ys arbitrary: a)
  case (Cons y ys)
  from Cons [of "max y a"] show ?case by auto
qed simp

lemma fold_max_mem: "fold max ys (a::nat) = a \<or> fold max ys a \<in> set ys"
proof (induction ys arbitrary: a)
  case (Cons y ys)
  from Cons [of "max y a"] show ?case by (auto simp: max_def split: if_splits)
qed simp

lemma distinct_singleton_set:
  assumes "set ys = {m}" "distinct ys" shows "ys = [m]"
proof (cases ys)
  case Nil
  with assms show ?thesis by simp
next
  case (Cons a rest)
  with assms have a: "a = m" by auto
  from Cons assms a have "set rest \<subseteq> {m}" "m \<notin> set rest" by auto
  then have "rest = []" by (cases rest) auto
  with Cons a show ?thesis by simp
qed

lemma count_list_pos: "x \<in> set xs \<Longrightarrow> 0 < count_list xs x"
  by (induction xs) auto

lemma max_count_upper: "count_list xs x \<le> max_count xs"
proof (cases "x \<in> set xs")
  case True
  then show ?thesis using fold_max_upper [of 0 "map (count_list xs) xs"] by (auto simp: max_count_def)
next
  case False
  then show ?thesis by simp
qed

lemma max_count_attained:
  assumes "xs \<noteq> []" shows "\<exists>x \<in> set xs. count_list xs x = max_count xs"
proof -
  from assms obtain y where y: "y \<in> set xs" by (cases xs) auto
  then have "0 < count_list xs y" by (rule count_list_pos)
  with max_count_upper [of xs y] have "max_count xs \<noteq> 0" by simp
  with fold_max_mem [of "map (count_list xs) xs" 0] show ?thesis by (auto simp: max_count_def)
qed

lemma mode_policy_Some_iff:
  assumes "xs \<noteq> []"
  shows "mode_policy xs = Some m \<longleftrightarrow>
           (m \<in> set xs \<and> 1 < count_list xs m \<and> (\<forall>y \<in> set xs. y \<noteq> m \<longrightarrow> count_list xs y < count_list xs m))"
    (is "?L \<longleftrightarrow> ?R")
proof
  assume L: ?L
  let ?mf = "most_frequent xs"
  from max_count_attained [OF assms] obtain x where x: "x \<in> set xs" "count_list xs x = max_count xs" by auto
  then have ne: "?mf \<noteq> []" by (auto simp: most_frequent_def filter_empty_conv)
  from L have l: "max_count xs \<noteq> 1" "length ?mf < 2" "hd ?mf = m"
    by (auto simp: mode_policy_def split: if_splits)
  from ne l have mf: "?mf = [m]" by (cases ?mf) auto
  then have "m \<in> set ?mf" by simp
  then have m: "m \<in> set xs" "count_list xs m = max_count xs" by (auto simp: most_frequent_def)
  from m(1) have "0 < count_list xs m" by (rule count_list_pos)
  with m l have gt: "1 < count_list xs m" by simp
  have "\<forall>y \<in> set xs. y \<noteq> m \<longrightarrow> count_list xs y < count_list xs m"
  proof (intro ballI impI)
    fix y assume y: "y \<in> set xs" "y \<noteq> m"
    have "count_list xs y \<noteq> max_count xs"
    proof
      assume "count_list xs y = max_count xs"
      with y have "y \<in> set ?mf" by (simp add: most_frequent_def)
      with mf y show False by simp
    qed
    with max_count_upper [of xs y] m show "count_list xs y < count_list xs m" by simp
  qed
  with m gt show ?R by simp
next
  assume R: ?R
  let ?mf = "most_frequent xs"
  from max_count_attained [OF assms] obtain x where x: "x \<in> set xs" "count_list xs x = max_count xs" by auto
  have xm: "x = m"
  proof (rule ccontr)
    assume "x \<noteq> m"
    with R x have "max_count xs < count_list xs m" by auto
    with max_count_upper [of xs m] show False by simp
  qed
  with x R have mc: "max_count xs = count_list xs m" "max_count xs \<noteq> 1" by auto
  have "set ?mf = {m}" using R mc by (auto simp: most_frequent_def)
  moreover have "distinct ?mf" by (simp add: most_frequent_def)
  ultimately have "?mf = [m]" by (rule distinct_singleton_set)
  with mc show ?L by (simp add: mode_policy_def)
qed

lemma mode_Some_iff:
  assumes "2 \<le> length xs"
  shows "mode xs = Some m \<longleftrightarrow>
           (m \<in> set xs \<and> 1 < count_list xs m \<and> (\<forall>y \<in> set xs. y \<noteq> m \<longrightarrow> count_list xs y < count_list xs m))"
    (is "?L \<longleftrightarrow> ?R")
proof -
  let ?items = "counts_of [] xs"
  from assms have md: "mode xs = mode_items ?items" by (auto simp: mode_def)
  have dk: "distinct (map fst ?items)" by (rule counts_of_distinct) simp
  then have d: "distinct ?items" by (simp add: distinct_map)
  show ?thesis
  proof
    assume ?L
    with md have "mode_items ?items = Some m" by simp
    from mode_items_Some_D [OF this] show ?R by (auto simp: counts_of_set)
  next
    assume R: ?R
    have "mode_items ?items = Some m"
      by (rule mode_items_Some_I [OF d, of m "count_list xs m"]) (use R in \<open>auto simp: counts_of_set\<close>)
    with md show ?L by simp
  qed
qed

lemma mode_refines_policy: "2 \<le> length xs \<Longrightarrow> mode xs = mode_policy xs"
proof -
  assume a: "2 \<le> length xs"
  then have ne: "xs \<noteq> []" by auto
  have eq: "mode xs = Some m \<longleftrightarrow> mode_policy xs = Some m" for m
    by (simp only: mode_Some_iff [OF a] mode_policy_Some_iff [OF ne])
  show ?thesis
  proof (cases "mode xs")
    case None
    show ?thesis
    proof (cases "mode_policy xs")
      case (Some m)
      with eq [of m] None show ?thesis by simp
    qed (simp add: None)
  next
    case (Some m)
    with eq [of m] show ?thesis by simp
  qed
qed

text \<open>
  Claim C6, as the code has it. The early return of lines 93-94 gives a one-element list
  its element as mode. For every list of at least two values the computed mode follows
  the policy: it is \<open>None\<close> when the most frequent value occurs exactly once or when
  two or more values tie for most frequent, and the unique most frequent value otherwise.
\<close>

theorem mode_follows_policy:
  "(length xs = 1 \<longrightarrow> mode xs = Some (hd xs))
   \<and> (2 \<le> length xs \<longrightarrow> mode xs = mode_policy xs)"
  by (simp add: mode_refines_policy) (simp add: mode_def)

text \<open>The theorem at a one-element list and at a list with a majority.\<close>

theorem mode_follows_policy_witness:
  "length [''100''] = 1 \<and> mode [''100''] = Some ''100''
   \<and> 2 \<le> length [''100'', ''50'', ''100'']
   \<and> mode [''100'', ''50'', ''100''] = mode_policy [''100'', ''50'', ''100'']
   \<and> mode_policy [''100'', ''50'', ''100''] = Some ''100''"
proof -
  have "mode_policy [''100'', ''50'', ''100''] = Some ''100''"
    by (simp add: mode_policy_def max_count_def most_frequent_def)
  with mode_follows_policy [of "[''100'']"] mode_follows_policy [of "[''100'', ''50'', ''100'']"]
  show ?thesis by simp
qed

text \<open>
  Claim C6 as stated fails at a one-element list: its most frequent value occurs exactly
  once, so the policy gives no mode, yet the code returns the element.
\<close>

theorem mode_singleton_counterexample:
  "[''100''] \<noteq> [] \<and> max_count [''100''] = 1 \<and> mode_policy [''100''] = None
   \<and> mode [''100''] = Some ''100''"
  by (simp add: mode_def mode_policy_def max_count_def)

section \<open>Properties of the dimension gate\<close>

lemma mode_widths: "mode [''100'', ''100'', ''100'', ''50''] = Some ''100''"
  by (simp add: mode_def mode_items_def)

lemma mode_lengths: "mode [h, h, h, h'] = Some h"
  by (simp add: mode_def mode_items_def)

lemma read_sizes_four:
  assumes "ra f1 ''WIDTH'' = Some w1" "ra f2 ''WIDTH'' = Some w2" "ra f3 ''WIDTH'' = Some w3" "ra f4 ''WIDTH'' = Some w4"
     "ra f1 ''FILE_LENGTH'' = Some l1" "ra f2 ''FILE_LENGTH'' = Some l2" "ra f3 ''FILE_LENGTH'' = Some l3" "ra f4 ''FILE_LENGTH'' = Some l4"
  shows "read_sizes ra [f1, f2, f3, f4] = Inr ([w1, w2, w3, w4], [l1, l2, l3, l4])"
  using assms by (simp add: getitem_def)

text \<open>
  Claim C5. A candidate list whose declared widths are 100, 100, 100, 50, with the first
  three heights equal (the fourth height may match or not), passes the dimension gate
  without an error: the gate returns exactly the first three candidates, reports the
  mode width 100 (and the common height as mode height), and the warning lists the
  fourth candidate.
\<close>

theorem check_file_size_majority:
  assumes w: "map (\<lambda>file. read_attribute file ''WIDTH'') fileList
               = [Some ''100'', Some ''100'', Some ''100'', Some ''50'']"
      and l: "map (\<lambda>file. read_attribute file ''FILE_LENGTH'') fileList
               = [Some h, Some h, Some h, Some h']"
  shows "check_file_size read_attribute fileList None None
           = Inr (take 3 fileList, Some ''100'', Some h)
         \<and> dropped_files read_attribute fileList (Some ''100'') (Some h) = [fileList ! 3]"
proof -
  from w have "length fileList = 4" using length_map [of "\<lambda>file. read_attribute file ''WIDTH''" fileList] by simp
  then obtain f1 f2 f3 f4 where fl: "fileList = [f1, f2, f3, f4]"
    by (auto simp: length_Suc_conv numeral_eq_Suc)
  from w fl have ws: "read_attribute f1 ''WIDTH'' = Some ''100''" "read_attribute f2 ''WIDTH'' = Some ''100''"
    "read_attribute f3 ''WIDTH'' = Some ''100''" "read_attribute f4 ''WIDTH'' = Some ''50''" by simp_all
  from l fl have ls: "read_attribute f1 ''FILE_LENGTH'' = Some h" "read_attribute f2 ''FILE_LENGTH'' = Some h"
    "read_attribute f3 ''FILE_LENGTH'' = Some h" "read_attribute f4 ''FILE_LENGTH'' = Some h'" by simp_all
  from ws have ne: "f4 \<noteq> f1" "f4 \<noteq> f2" "f4 \<noteq> f3" by auto
  have rs: "read_sizes read_attribute [f1, f2, f3, f4]
              = Inr ([''100'', ''100'', ''100'', ''50''], [h, h, h, h'])"
    by (rule read_sizes_four [OF ws ls])
  have dl: "drop_loop [(f1, ''100'', h), (f2, ''100'', h), (f3, ''100'', h), (f4, ''50'', h')]
              (Some ''100'') (Some h) [f1, f2, f3, f4] = Inr [f1, f2, f3]"
    using ne by (simp add: py_remove_def)
  have "check_file_size read_attribute [f1, f2, f3, f4] None None
           = Inr ([f1, f2, f3], Some ''100'', Some h)"
    by (simp add: check_file_size_def rs truthy_str_def mode_widths mode_lengths count_opt_def dl
          del: read_sizes.simps drop_loop.simps)
  moreover have "dropped_files read_attribute [f1, f2, f3, f4] (Some ''100'') (Some h) = [f4]"
    by (simp add: dropped_files_def ws ls)
  ultimately show ?thesis by (simp add: fl)
qed

text \<open>The theorem at four concrete candidates.\<close>

theorem check_file_size_majority_witness:
  "map (\<lambda>file. example_sizes file ''WIDTH'') [''a.unw'', ''b.unw'', ''c.unw'', ''d.unw'']
     = [Some ''100'', Some ''100'', Some ''100'', Some ''50'']
   \<and> map (\<lambda>file. example_sizes file ''FILE_LENGTH'') [''a.unw'', ''b.unw'', ''c.unw'', ''d.unw'']
     = [Some ''80'', Some ''80'', Some ''80'', Some ''80'']
   \<and> check_file_size example_sizes [''a.unw'', ''b.unw'', ''c.unw'', ''d.unw''] None None
     = Inr ([''a.unw'', ''b.unw'', ''c.unw''], Some ''100'', Some ''80'')
   \<and> dropped_files example_sizes [''a.unw'', ''b.unw'', ''c.unw'', ''d.unw''] (Some ''100'') (Some ''80'')
     = [''d.unw'']"
proof -
  have w: "map (\<lambda>file. example_sizes file ''WIDTH'') [''a.unw'', ''b.unw'', ''c.unw'', ''d.unw'']
     = [Some ''100'', Some ''100'', Some ''100'', Some ''50'']"
    by (simp add: example_sizes_def attrs_of_def)
  have l: "map (\<lambda>file. example_sizes file ''FILE_LENGTH'') [''a.unw'', ''b.unw'', ''c.unw'', ''d.unw'']
     = [Some ''80'', Some ''80'', Some ''80'', Some ''80'']"
    by (simp add: example_sizes_def attrs_of_def)
  from check_file_size_majority [OF w l] w l show ?thesis by simp
qed

section \<open>Properties of the incremental container writer\<close>

text \<open>
  The removal loop of \<^verbatim>\<open>check_existed_hdf5_file\<close>, lines 174-177. When no candidate's
  path contains two of the stored epoch ids, no \<^verbatim>\<open>remove\<close> fails, and the loop leaves
  the candidates whose path contains no stored epoch id, in their order.
\<close>

lemma filter_remove1_gone: "\<not> P f \<Longrightarrow> filter P (remove1 f xs) = filter P xs"
  by (induction xs) auto

lemma count_list_remove1:
  "count_list (remove1 m xs) f = (if f = m then count_list xs f - 1 else count_list xs f)"
  by (induction xs) auto

lemma count_list_filter: "count_list (filter P xs) f = (if P f then count_list xs f else 0)"
  by (induction xs) auto

lemma count_list_zero_notin: "count_list xs x = 0 \<Longrightarrow> x \<notin> set xs"
  by (simp add: count_list_0_iff)

lemma remove_files_filter:
  assumes "\<forall>f \<in> set ms. sublist e f \<longrightarrow> count_list out f = count_list ms f"
  shows "remove_files e ms out = Inr (filter (\<lambda>f. \<not> (f \<in> set ms \<and> sublist e f)) out)"
  using assms
proof (induction ms arbitrary: out)
  case Nil
  then show ?case by simp
next
  case (Cons m ms)
  show ?case
  proof (cases "sublist e m")
    case False
    have "\<forall>f \<in> set ms. sublist e f \<longrightarrow> count_list out f = count_list ms f"
      using Cons.prems False by auto
    moreover have "(\<lambda>f. \<not> (f \<in> set (m # ms) \<and> sublist e f)) = (\<lambda>f. \<not> (f \<in> set ms \<and> sublist e f))"
      using False by auto
    ultimately show ?thesis using False Cons.IH [of out] by simp
  next
    case True
    with Cons.prems have cm: "count_list out m = count_list ms m + 1" by simp
    then have min: "m \<in> set out" using count_list_zero_notin [of out m] by (cases "m \<in> set out") auto
    let ?out = "remove1 m out"
    have "\<forall>f \<in> set ms. sublist e f \<longrightarrow> count_list ?out f = count_list ms f"
      using Cons.prems cm by (auto simp: count_list_remove1)
    from Cons.IH [OF this]
    have ih: "remove_files e ms ?out = Inr (filter (\<lambda>f. \<not> (f \<in> set ms \<and> sublist e f)) ?out)" .
    have "filter (\<lambda>f. \<not> (f \<in> set ms \<and> sublist e f)) ?out
            = filter (\<lambda>f. \<not> (f \<in> set (m # ms) \<and> sublist e f)) ?out"
    proof (rule filter_cong [OF refl])
      fix f assume f: "f \<in> set ?out"
      show "(\<not> (f \<in> set ms \<and> sublist e f)) = (\<not> (f \<in> set (m # ms) \<and> sublist e f))"
      proof (cases "f = m")
        case False
        then show ?thesis by simp
      next
        case fm: True
        have "m \<in> set ms"
        proof (rule ccontr)
          assume "m \<notin> set ms"
          then have "count_list ?out m = 0" using cm by (simp add: count_list_remove1)
          with f fm show False using count_list_zero_notin [of ?out m] by simp
        qed
        with fm show ?thesis by simp
      qed
    qed
    also have "\<dots> = filter (\<lambda>f. \<not> (f \<in> set (m # ms) \<and> sublist e f)) out"
      using True by (intro filter_remove1_gone) simp
    finally show ?thesis using ih True min by (simp add: py_remove_def)
  qed
qed

lemma remove_existed_filter:
  assumes "\<forall>f \<in> set fl. length (filter (\<lambda>e. sublist e f) es) \<le> 1"
      and "\<forall>f \<in> set fl. (\<exists>e \<in> set es. sublist e f) \<longrightarrow> count_list out f = count_list fl f"
      and "set out \<subseteq> set fl"
  shows "remove_existed es fl out = Inr (filter (\<lambda>f. \<not> (\<exists>e \<in> set es. sublist e f)) out)"
  using assms
proof (induction es arbitrary: out)
  case Nil
  then show ?case by simp
next
  case (Cons e es)
  let ?out = "filter (\<lambda>f. \<not> sublist e f) out"
  have "\<forall>f \<in> set fl. sublist e f \<longrightarrow> count_list out f = count_list fl f"
  proof (intro ballI impI)
    fix f assume f: "f \<in> set fl" "sublist e f"
    then have "\<exists>e' \<in> set (e # es). sublist e' f" by simp
    with Cons.prems(2) f(1) show "count_list out f = count_list fl f" by blast
  qed
  from remove_files_filter [OF this]
  have "remove_files e fl out = Inr (filter (\<lambda>f. \<not> (f \<in> set fl \<and> sublist e f)) out)" .
  also have "filter (\<lambda>f. \<not> (f \<in> set fl \<and> sublist e f)) out = ?out"
  proof (rule filter_cong [OF refl])
    fix f assume "f \<in> set out"
    with Cons.prems(3) have "f \<in> set fl" by blast
    then show "(\<not> (f \<in> set fl \<and> sublist e f)) = (\<not> sublist e f)" by simp
  qed
  finally have inner: "remove_files e fl out = Inr ?out" .
  have one: "\<forall>f \<in> set fl. length (filter (\<lambda>e. sublist e f) es) \<le> 1"
  proof
    fix f assume "f \<in> set fl"
    with Cons.prems(1) have "length (filter (\<lambda>e. sublist e f) (e # es)) \<le> 1" by blast
    moreover have "length (filter (\<lambda>e. sublist e f) es) \<le> length (filter (\<lambda>e. sublist e f) (e # es))"
      by simp
    ultimately show "length (filter (\<lambda>e. sublist e f) es) \<le> 1" by (rule order_trans [rotated])
  qed
  have excl: "\<not> sublist e f" if "f \<in> set fl" "e' \<in> set es" "sublist e' f" for f e'
  proof
    assume ef: "sublist e f"
    from Cons.prems(1) that(1) have "length (filter (\<lambda>e. sublist e f) (e # es)) \<le> 1" by blast
    with ef have "filter (\<lambda>e. sublist e f) es = []" by simp
    moreover from that(2,3) have "e' \<in> set (filter (\<lambda>e. sublist e f) es)" by simp
    ultimately show False by simp
  qed
  have cnt: "\<forall>f \<in> set fl. (\<exists>e \<in> set es. sublist e f) \<longrightarrow> count_list ?out f = count_list fl f"
  proof (intro ballI impI)
    fix f assume f: "f \<in> set fl" "\<exists>e \<in> set es. sublist e f"
    then have "\<not> sublist e f" using excl by blast
    then have "count_list ?out f = count_list out f" by (simp add: count_list_filter)
    also from Cons.prems(2) f have "\<dots> = count_list fl f" by auto
    finally show "count_list ?out f = count_list fl f" .
  qed
  have sub: "set ?out \<subseteq> set fl" using Cons.prems(3) by auto
  have "(\<lambda>f. \<not> sublist e f \<and> \<not> (\<exists>e' \<in> set es. sublist e' f))
          = (\<lambda>f. \<not> (\<exists>e' \<in> set (e # es). sublist e' f))" by auto
  then have "filter (\<lambda>f. \<not> (\<exists>e' \<in> set es. sublist e' f)) ?out
          = filter (\<lambda>f. \<not> (\<exists>e' \<in> set (e # es). sublist e' f)) out"
    by (simp only: filter_filter)
  moreover have "remove_existed (e # es) fl out = remove_existed es fl ?out"
    using inner by simp
  ultimately show ?case using Cons.IH [OF one cnt sub] by (simp only:)
qed

lemma length_filter_sort: "length (filter P (sort xs)) = length (filter P xs)"
  by (simp add: filter_sort)

lemma example_sort: "sort [''A.unw'', ''B.unw''] = [''A.unw'', ''B.unw'']"
  by code_simp

lemma example_sublist:
  "sublist ''A.unw'' ''/d/A.unw''" "\<not> sublist ''B.unw'' ''/d/A.unw''"
  "sublist ''B.unw'' ''/d/B.unw''" "\<not> sublist ''A.unw'' ''/d/B.unw''"
  "\<not> sublist ''A.unw'' ''/d/C.unw''" "\<not> sublist ''B.unw'' ''/d/C.unw''"
  by code_simp+

lemma example_gate_present:
  "check_file_size (read_attribute_rsc example_rf) [''/d/A.unw'', ''/d/B.unw''] None None
     = Inr ([''/d/A.unw'', ''/d/B.unw''], Some ''100'', Some ''80'')"
  by (simp add: check_file_size_def example_rf_def attrs_of_def getitem_def truthy_str_def
        mode_def mode_items_def count_opt_def)

lemma example_gate_new:
  "check_file_size (read_attribute_rsc example_rf) [''/d/C.unw''] None None
     = Inr ([''/d/C.unw''], Some ''100'', Some ''80'')"
  by (simp add: check_file_size_def example_rf_def attrs_of_def getitem_def truthy_str_def
        mode_def count_opt_def)

lemma example_rf_h5: "read_attribute_h5 example_rf h5 = example_h5_attrs"
  by (simp add: example_rf_def)

lemma example_existed_present:
  "check_existed_hdf5_file example_rf example_files [''/d/A.unw'', ''/d/B.unw''] ''unwrapIfgram.h5''
     = (example_files, Inr (Some []))"
  by (simp add: check_existed_hdf5_file_def example_files_def example_h5_def example_rf_def
        example_h5_attrs_def getitem_def example_sort example_sublist py_remove_def
        check_mode_size_def)

lemma example_existed_new:
  "check_existed_hdf5_file example_rf example_files [''/d/C.unw''] ''unwrapIfgram.h5''
     = (example_files, Inr (Some [''/d/C.unw'']))"
  by (simp add: check_existed_hdf5_file_def example_files_def example_h5_def example_h5_attrs_def
        getitem_def example_sort example_sublist check_mode_size_def example_gate_new example_rf_h5)

lemma example_write_new:
  "write_files example_rf Map.empty ''interferograms'' [''/d/C.unw''] [(''interferograms'', [])]
     = ([(''interferograms'', [(''C.unw'', 8, pysar_attrs Map.empty (attrs_of ''100'' ''80''))])],
        Inr ())"
  by (simp add: example_rf_def baseline_attrs_def basename_def attrs_of_def)

text \<open>
  Claim C4 at the example container, with both stored epochs offered again. Both
  candidates pass the dimension gate and both are stored epochs of the container. The
  merge leaves every file as it was, and what it returns beside the container path is
  \<^verbatim>\<open>None\<close>, where the claim and the function's docstring (\<^verbatim>\<open>fileList : list of string,
  files newly added\<close>) have the list of added files, here the empty list.
\<close>

theorem merge_all_present_returns_none:
  "epoch_ids example_files ''unwrapIfgram.h5'' ''interferograms'' = Some [''A.unw'', ''B.unw'']
   \<and> map basename [''/d/A.unw'', ''/d/B.unw''] = [''A.unw'', ''B.unw'']
   \<and> roipac2multi_group_hdf5 example_rf example_files ''interferograms''
         [''/d/A.unw'', ''/d/B.unw''] ''unwrapIfgram.h5'' Map.empty
       = (example_files, Inr (Some ''unwrapIfgram.h5'', None))"
proof -
  have "epoch_ids example_files ''unwrapIfgram.h5'' ''interferograms'' = Some [''A.unw'', ''B.unw'']"
    by (simp add: epoch_ids_def example_files_def example_h5_def)
  moreover have "map basename [''/d/A.unw'', ''/d/B.unw''] = [''A.unw'', ''B.unw'']"
    by (simp add: basename_def)
  moreover have "roipac2multi_group_hdf5 example_rf example_files ''interferograms''
         [''/d/A.unw'', ''/d/B.unw''] ''unwrapIfgram.h5'' Map.empty
       = (example_files, Inr (Some ''unwrapIfgram.h5'', None))"
    by (simp add: roipac2multi_group_hdf5_def example_gate_present example_existed_present)
  ultimately show ?thesis by simp
qed

text \<open>
  Claim C9 at a container holding the epochs \<^verbatim>\<open>A.unw\<close> and \<^verbatim>\<open>B.unw\<close> and one new
  candidate \<^verbatim>\<open>C.unw\<close> of the container's size. No candidate is removed as present, so
  the list that comes back from \<^verbatim>\<open>check_existed_hdf5_file\<close> equals the input list, the
  file is opened in \<^verbatim>\<open>w\<close> mode, and the container afterwards holds \<^verbatim>\<open>C.unw\<close> alone.
\<close>

theorem merge_new_epoch_truncates:
  "epoch_ids example_files ''unwrapIfgram.h5'' ''interferograms'' = Some [''A.unw'', ''B.unw'']
   \<and> snd (roipac2multi_group_hdf5 example_rf example_files ''interferograms''
              [''/d/C.unw''] ''unwrapIfgram.h5'' Map.empty)
       = Inr (Some ''unwrapIfgram.h5'', Some [''/d/C.unw''])
   \<and> epoch_ids (fst (roipac2multi_group_hdf5 example_rf example_files ''interferograms''
                         [''/d/C.unw''] ''unwrapIfgram.h5'' Map.empty))
         ''unwrapIfgram.h5'' ''interferograms'' = Some [''C.unw'']"
proof -
  have "roipac2multi_group_hdf5 example_rf example_files ''interferograms''
          [''/d/C.unw''] ''unwrapIfgram.h5'' Map.empty
        = (example_files(''unwrapIfgram.h5'' \<mapsto>
             H5 [(''interferograms'',
                  [(''C.unw'', 8, pysar_attrs Map.empty (attrs_of ''100'' ''80''))])]),
           Inr (Some ''unwrapIfgram.h5'', Some [''/d/C.unw'']))"
    by (simp add: roipac2multi_group_hdf5_def example_gate_new example_existed_new write_hdf5_def
          open_group_def example_write_new del: write_files.simps)
  then show ?thesis
    by (simp add: epoch_ids_def example_files_def example_h5_def)
qed

section \<open>Properties of the re-referencing transform\<close>

lemma zip_map_snd_eq:
  "map (\<lambda>(e, r). (e, h e r)) (zip es rs) = zip (take (length rs) es) (map (\<lambda>(e, r). h e r) (zip es rs))"
proof (induction es arbitrary: rs)
  case Nil
  then show ?case by simp
next
  case (Cons e es)
  then show ?case by (cases rs) auto
qed

lemma map_of_seeded_nth:
  assumes "length es = length rs" "distinct es" "i < length rs"
  shows "map_of (map (\<lambda>(e, r). (e, h e r)) (zip es rs)) (es ! i) = Some (h (es ! i) (rs ! i))"
proof -
  let ?vs = "map (\<lambda>(e, r). h e r) (zip es rs)"
  have "map (\<lambda>(e, r). (e, h e r)) (zip es rs) = zip es ?vs"
    using zip_map_snd_eq [of h es rs] assms(1) by simp
  moreover have "map_of (zip es ?vs) (es ! i) = Some (?vs ! i)"
    by (rule map_of_zip_nth) (use assms in auto)
  moreover have "?vs ! i = h (es ! i) (rs ! i)" using assms by simp
  ultimately show ?thesis by simp
qed

lemma fst_seeded: "length es = length rs \<Longrightarrow> map fst (map (\<lambda>(e, r). (e, h e r)) (zip es rs)) = es"
  by (induction es rs rule: list_induct2) auto

lemma epoch_list_seeded:
  assumes "length rs = length entries"
  shows "epoch_list (map (\<lambda>(e, r). (e, h e r)) (zip (epoch_list entries) rs)) = epoch_list entries"
proof -
  have "map fst (map (\<lambda>(e, r). (e, h e r)) (zip (epoch_list entries) rs)) = epoch_list entries"
    by (rule fst_seeded) (simp add: assms epoch_list_def)
  then have "sort (map fst (map (\<lambda>(e, r). (e, h e r)) (zip (epoch_list entries) rs)))
               = sort (epoch_list entries)" by (rule arg_cong)
  then show ?thesis unfolding epoch_list_def [of "map _ _"] by (simp only: sorted_sort_id sorted_sort epoch_list_def)
qed

lemma epoch_list_sorted: "sort (epoch_list entries) = epoch_list entries"
  by (simp add: epoch_list_def sorted_sort_id)

lemma epoch_list_length: "length (epoch_list entries) = length entries"
  by (simp add: epoch_list_def)

lemma epoch_list_distinct: "distinct (map fst entries) \<Longrightarrow> distinct (epoch_list entries)"
  by (simp add: epoch_list_def)

lemma epoch_list_timeseries:
  "length refList = length entries \<Longrightarrow>
     epoch_list (seed_timeseries entries (epoch_list entries) refList) = epoch_list entries"
  unfolding seed_timeseries_def by (rule epoch_list_seeded)

lemma epoch_list_ifgrams:
  "length refList = length entries \<Longrightarrow>
     epoch_list (seed_ifgrams env entries (epoch_list entries) refList x_attr y_attr) = epoch_list entries"
  unfolding seed_ifgrams_def by (rule epoch_list_seeded)

lemma epoch_data_timeseries:
  assumes "length refList = length entries" "distinct (map fst entries)" "i < length entries"
  shows "epoch_data (seed_timeseries entries (epoch_list entries) refList) (epoch_list entries ! i)
           = sub_raster (epoch_data entries (epoch_list entries ! i)) (refList ! i)"
proof -
  have "map_of (seed_timeseries entries (epoch_list entries) refList) (epoch_list entries ! i)
          = Some (sub_raster (epoch_data entries (epoch_list entries ! i)) (refList ! i), Map.empty)"
    unfolding seed_timeseries_def
    by (rule map_of_seeded_nth) (use assms in \<open>auto simp: epoch_list_length epoch_list_distinct\<close>)
  then show ?thesis by (simp add: epoch_data_def)
qed

lemma epoch_data_ifgrams:
  assumes "length refList = length entries" "distinct (map fst entries)" "i < length entries"
  shows "epoch_data (seed_ifgrams env entries (epoch_list entries) refList x_attr y_attr) (epoch_list entries ! i)
           = sub_raster (epoch_data entries (epoch_list entries ! i)) (refList ! i)"
proof -
  have "map_of (seed_ifgrams env entries (epoch_list entries) refList x_attr y_attr) (epoch_list entries ! i)
          = Some (sub_raster (epoch_data entries (epoch_list entries ! i)) (refList ! i),
                  seed_attributes env (epoch_attrs entries (epoch_list entries ! i)) x_attr y_attr)"
    unfolding seed_ifgrams_def
    by (rule map_of_seeded_nth) (use assms in \<open>auto simp: epoch_list_length epoch_list_distinct\<close>)
  then show ?thesis by (simp add: epoch_data_def)
qed

lemma raster_at_sub:
  "y < length data \<Longrightarrow> x < length (data ! y) \<Longrightarrow>
     raster_at (sub_raster data r) y x = psub (raster_at data y x) r"
  by (simp add: raster_at_def sub_raster_def)

lemma psub_self: "v \<noteq> NaN \<Longrightarrow> psub v v = Val 0"
  by (cases v) auto

lemma seed_multi_result:
  assumes "fs File = Some (Multi k entries gattrs)"
      and "read_attribute_file env (Multi k entries gattrs) ''FILE_TYPE'' = Some k"
      and "k \<in> set multi_types"
      and "length refList = length entries"
      and "outName \<noteq> File"
  shows "seed_file_reference_value env fs File outName refList y_attr x_attr
           = (fs(outName \<mapsto>
                (if k = ''timeseries''
                 then Multi k (seed_timeseries entries (epoch_list entries) refList)
                        (seed_attributes env
                           (map_option AStr \<circ> read_attribute_file env (Multi k entries gattrs)) x_attr y_attr)
                 else Multi k (seed_ifgrams env entries (epoch_list entries) refList x_attr y_attr)
                        Map.empty)),
              Inr outName)"
  using assms
  by (simp add: seed_file_reference_value_def getitem_def epoch_list_length Let_def)

text \<open>
  Claim C1. Value-mode re-referencing of a multi-epoch file whose reference list has one
  value per epoch, written to another file, returns the output name; the output holds
  the epochs of the input, and for every epoch, taken in sorted order with the reference
  value of the same position, the output raster is the input raster minus that value,
  element by element. Where the reference value of an epoch is the epoch's value at a
  pixel of the raster that is not missing, as in the single-anchor modes, the output is
  0 at that pixel.
\<close>

theorem seed_value_mode_correct:
  assumes "fs File = Some (Multi k entries gattrs)"
      and "read_attribute_file env (Multi k entries gattrs) ''FILE_TYPE'' = Some k"
      and "k \<in> set multi_types"
      and "distinct (map fst entries)"
      and "length refList = length entries"
      and "outName \<noteq> File"
  shows "snd (seed_file_reference_value env fs File outName refList y_attr x_attr) = Inr outName
       \<and> file_epochs (fst (seed_file_reference_value env fs File outName refList y_attr x_attr)) outName
           = file_epochs fs File
       \<and> (\<forall>i < length entries.
             file_raster (fst (seed_file_reference_value env fs File outName refList y_attr x_attr))
                 outName (file_epochs fs File ! i)
               = sub_raster (file_raster fs File (file_epochs fs File ! i)) (refList ! i))
       \<and> (\<forall>i < length entries. \<forall>y x.
             y < length (file_raster fs File (file_epochs fs File ! i))
             \<and> x < length (file_raster fs File (file_epochs fs File ! i) ! y)
             \<and> refList ! i = raster_at (file_raster fs File (file_epochs fs File ! i)) y x
             \<and> refList ! i \<noteq> NaN
             \<longrightarrow> raster_at (file_raster (fst (seed_file_reference_value env fs File outName refList
                                                  y_attr x_attr)) outName (file_epochs fs File ! i)) y x
                   = Val 0)"
proof -
  let ?res = "seed_file_reference_value env fs File outName refList y_attr x_attr"
  note r = seed_multi_result [where fs = fs and File = File, OF assms(1,2,3,5,6), of y_attr x_attr]
  have e: "file_epochs fs File = epoch_list entries" using assms(1) by (simp add: file_epochs_def)
  have d: "file_raster fs File epoch = epoch_data entries epoch" for epoch
    using assms(1) by (simp add: file_raster_def)
  have c1: "snd ?res = Inr outName" using r by simp
  have c2: "file_epochs (fst ?res) outName = file_epochs fs File"
    using r e assms(5) by (simp add: file_epochs_def epoch_list_timeseries epoch_list_ifgrams)
  have c3: "file_raster (fst ?res) outName (file_epochs fs File ! i)
              = sub_raster (file_raster fs File (file_epochs fs File ! i)) (refList ! i)"
    if "i < length entries" for i
    using r e d assms(4,5) that
    by (simp add: file_raster_def epoch_data_timeseries epoch_data_ifgrams)
  have c4: "raster_at (file_raster (fst ?res) outName (file_epochs fs File ! i)) y x = Val 0"
    if "i < length entries" "y < length (file_raster fs File (file_epochs fs File ! i))"
       "x < length (file_raster fs File (file_epochs fs File ! i) ! y)"
       "refList ! i = raster_at (file_raster fs File (file_epochs fs File ! i)) y x"
       "refList ! i \<noteq> NaN" for i y x
    using that by (simp only: c3 raster_at_sub) (simp add: psub_self)
  from c1 c2 c3 c4 show ?thesis by blast
qed

text \<open>
  Claim C2. When the reference list and the input file differ in their number of epochs,
  value-mode re-referencing of a multi-epoch file ends with \<^verbatim>\<open>sys.exit(1)\<close> and every
  file is as it was before: the output file is not created.
\<close>

theorem epoch_count_mismatch_exits:
  assumes "fs File = Some (Multi k entries gattrs)"
      and "read_attribute_file env (Multi k entries gattrs) ''FILE_TYPE'' = Some k"
      and "k \<in> set multi_types"
      and "length refList \<noteq> length entries"
  shows "seed_file_reference_value env fs File outName refList y_attr x_attr = (fs, Inl (SystemExit 1))"
  using assms
  by (auto simp add: seed_file_reference_value_def getitem_def epoch_list_length Let_def)

lemma example_ts_epochs: "epoch_list
       [(''20090201'', [[Val 2, Val 4, Val 6], [Val 8, Val 10, Val 12], [Val 14, Val 16, Val 18]],
         Map.empty),
        (''20090101'', [[Val 1, Val 2, Val 3], [Val 4, Val 5, Val 6], [Val 7, Val 8, Val 9]],
         Map.empty)] = [''20090101'', ''20090201'']"
proof -
  have "sort [''20090201'', ''20090101''] = [''20090101'', ''20090201'']" by code_simp
  then show ?thesis by (simp add: epoch_list_def)
qed

lemma example_file_epochs: "file_epochs example_seedfiles ''ts.h5'' = [''20090101'', ''20090201'']"
  by (simp add: file_epochs_def example_seedfiles_def example_ts_def example_ts_epochs)

lemma example_file_raster:
  "file_raster example_seedfiles ''ts.h5'' ''20090101''
     = [[Val 1, Val 2, Val 3], [Val 4, Val 5, Val 6], [Val 7, Val 8, Val 9]]"
  "file_raster example_seedfiles ''ts.h5'' ''20090201''
     = [[Val 2, Val 4, Val 6], [Val 8, Val 10, Val 12], [Val 14, Val 16, Val 18]]"
  by (simp_all add: file_raster_def example_seedfiles_def example_ts_def epoch_data_def)

text \<open>
  The theorem at the example time series, referenced to its centre pixel, whose values
  in the two epochs are 5 and 10.
\<close>

theorem seed_value_mode_correct_witness:
  "example_seedfiles ''ts.h5''
     = Some (Multi ''timeseries''
               [(''20090201'', [[Val 2, Val 4, Val 6], [Val 8, Val 10, Val 12], [Val 14, Val 16, Val 18]],
                 Map.empty),
                (''20090101'', [[Val 1, Val 2, Val 3], [Val 4, Val 5, Val 6], [Val 7, Val 8, Val 9]],
                 Map.empty)]
               Map.empty)
   \<and> ''timeseries'' \<in> set multi_types
   \<and> ''Seeded_ts.h5'' \<noteq> ''ts.h5''
   \<and> snd (seed_file_reference_value example_env example_seedfiles ''ts.h5'' ''Seeded_ts.h5''
             [Val 5, Val 10] (AInt 1) (AInt 1)) = Inr ''Seeded_ts.h5''
   \<and> file_epochs (fst (seed_file_reference_value example_env example_seedfiles ''ts.h5''
                          ''Seeded_ts.h5'' [Val 5, Val 10] (AInt 1) (AInt 1))) ''Seeded_ts.h5''
       = [''20090101'', ''20090201'']
   \<and> file_raster (fst (seed_file_reference_value example_env example_seedfiles ''ts.h5''
                          ''Seeded_ts.h5'' [Val 5, Val 10] (AInt 1) (AInt 1))) ''Seeded_ts.h5''
         ''20090101''
       = [[Val (- 4), Val (- 3), Val (- 2)], [Val (- 1), Val 0, Val 1], [Val 2, Val 3, Val 4]]
   \<and> raster_at (file_raster (fst (seed_file_reference_value example_env example_seedfiles ''ts.h5''
                          ''Seeded_ts.h5'' [Val 5, Val 10] (AInt 1) (AInt 1))) ''Seeded_ts.h5''
         ''20090201'') 1 1 = Val 0"
proof -
  let ?entries = "[(''20090201'', [[Val 2, Val 4, Val 6], [Val 8, Val 10, Val 12], [Val 14, Val 16, Val 18]],
                 Map.empty),
                (''20090101'', [[Val 1, Val 2, Val 3], [Val 4, Val 5, Val 6], [Val 7, Val 8, Val 9]],
                 Map.empty :: avattrs)]"
  have f: "example_seedfiles ''ts.h5'' = Some (Multi ''timeseries'' ?entries Map.empty)"
    by (simp add: example_seedfiles_def example_ts_def)
  have t: "read_attribute_file example_env (Multi ''timeseries'' ?entries Map.empty) ''FILE_TYPE''
             = Some ''timeseries''"
    by (simp add: example_env_def)
  have m: "''timeseries'' \<in> set multi_types" by (simp add: multi_types_def)
  have d: "distinct (map fst ?entries)" by simp
  have l: "length [Val 5, Val 10] = length ?entries" by simp
  have n: "''Seeded_ts.h5'' \<noteq> ''ts.h5''" by simp
  note th = seed_value_mode_correct [where fs = example_seedfiles and File = "''ts.h5''",
              OF f t m d l n, of "AInt 1" "AInt 1"]
  from th have a: "snd (seed_file_reference_value example_env example_seedfiles ''ts.h5'' ''Seeded_ts.h5''
             [Val 5, Val 10] (AInt 1) (AInt 1)) = Inr ''Seeded_ts.h5''" by blast
  from th have b: "file_epochs (fst (seed_file_reference_value example_env example_seedfiles ''ts.h5''
                          ''Seeded_ts.h5'' [Val 5, Val 10] (AInt 1) (AInt 1))) ''Seeded_ts.h5''
       = [''20090101'', ''20090201'']" by (simp add: example_file_epochs)
  from th have "\<forall>i < length ?entries.
             file_raster (fst (seed_file_reference_value example_env example_seedfiles ''ts.h5''
                          ''Seeded_ts.h5'' [Val 5, Val 10] (AInt 1) (AInt 1)))
                 ''Seeded_ts.h5'' (file_epochs example_seedfiles ''ts.h5'' ! i)
               = sub_raster (file_raster example_seedfiles ''ts.h5'' (file_epochs example_seedfiles ''ts.h5'' ! i))
                   ([Val 5, Val 10] ! i)" by blast
  from this [rule_format, of 0] have c: "file_raster (fst (seed_file_reference_value example_env example_seedfiles ''ts.h5''
                          ''Seeded_ts.h5'' [Val 5, Val 10] (AInt 1) (AInt 1))) ''Seeded_ts.h5''
         ''20090101''
       = [[Val (- 4), Val (- 3), Val (- 2)], [Val (- 1), Val 0, Val 1], [Val 2, Val 3, Val 4]]"
    by (simp add: example_file_epochs example_file_raster sub_raster_def)
  from th have "\<forall>i < length ?entries. \<forall>y x.
             y < length (file_raster example_seedfiles ''ts.h5'' (file_epochs example_seedfiles ''ts.h5'' ! i))
             \<and> x < length (file_raster example_seedfiles ''ts.h5'' (file_epochs example_seedfiles ''ts.h5'' ! i) ! y)
             \<and> [Val 5, Val 10] ! i = raster_at (file_raster example_seedfiles ''ts.h5'' (file_epochs example_seedfiles ''ts.h5'' ! i)) y x
             \<and> [Val 5, Val 10] ! i \<noteq> NaN
             \<longrightarrow> raster_at (file_raster (fst (seed_file_reference_value example_env example_seedfiles ''ts.h5''
                          ''Seeded_ts.h5'' [Val 5, Val 10] (AInt 1) (AInt 1))) ''Seeded_ts.h5'' (file_epochs example_seedfiles ''ts.h5'' ! i)) y x
                   = Val 0" by blast
  from this [rule_format, of 1 1 1]
  have e: "raster_at (file_raster (fst (seed_file_reference_value example_env example_seedfiles ''ts.h5''
                          ''Seeded_ts.h5'' [Val 5, Val 10] (AInt 1) (AInt 1))) ''Seeded_ts.h5''
         ''20090201'') 1 1 = Val 0"
    by (simp add: example_file_epochs example_file_raster raster_at_def)
  from f m n a b c e show ?thesis by blast
qed

text \<open>The theorem at the example time series of two epochs and a list of one value.\<close>

theorem epoch_count_mismatch_exits_witness:
  "example_seedfiles ''ts.h5''
     = Some (Multi ''timeseries''
               [(''20090201'', [[Val 2, Val 4, Val 6], [Val 8, Val 10, Val 12], [Val 14, Val 16, Val 18]],
                 Map.empty),
                (''20090101'', [[Val 1, Val 2, Val 3], [Val 4, Val 5, Val 6], [Val 7, Val 8, Val 9]],
                 Map.empty)]
               Map.empty)
   \<and> ''timeseries'' \<in> set multi_types
   \<and> length [Val 5] \<noteq> (2::nat)
   \<and> seed_file_reference_value example_env example_seedfiles ''ts.h5'' ''Seeded_ts.h5''
             [Val 5] (AInt 1) (AInt 1) = (example_seedfiles, Inl (SystemExit 1))"
proof -
  let ?entries = "[(''20090201'', [[Val 2, Val 4, Val 6], [Val 8, Val 10, Val 12], [Val 14, Val 16, Val 18]],
                 Map.empty),
                (''20090101'', [[Val 1, Val 2, Val 3], [Val 4, Val 5, Val 6], [Val 7, Val 8, Val 9]],
                 Map.empty :: avattrs)]"
  have f: "example_seedfiles ''ts.h5'' = Some (Multi ''timeseries'' ?entries Map.empty)"
    by (simp add: example_seedfiles_def example_ts_def)
  have t: "read_attribute_file example_env (Multi ''timeseries'' ?entries Map.empty) ''FILE_TYPE''
             = Some ''timeseries''"
    by (simp add: example_env_def)
  have m: "''timeseries'' \<in> set multi_types" by (simp add: multi_types_def)
  have l: "length [Val 5] \<noteq> length ?entries" by simp
  from epoch_count_mismatch_exits [where fs = example_seedfiles and File = "''ts.h5''",
              OF f t m l, of "''Seeded_ts.h5''" "AInt 1" "AInt 1"] f m
  show ?thesis by simp
qed


section \<open>Properties of the reference-point resolver\<close>

lemma grid_nat_lt:
  assumes "grid_shape a nrow ncol" "0 \<le> y" "y < nrow"
  shows "nat y < length a"
proof -
  from assms(1) have "int (length a) = nrow" by (simp add: grid_shape_def)
  with assms(2,3) show ?thesis by linarith
qed

lemma grid_row_length:
  assumes "grid_shape a nrow ncol" "0 \<le> y" "y < nrow"
  shows "int (length (a ! nat y)) = ncol"
proof -
  from assms have "nat y < length a" by (rule grid_nat_lt)
  moreover from assms(1) have "list_all (\<lambda>row. int (length row) = ncol) a" by (simp add: grid_shape_def)
  ultimately show ?thesis by (simp add: list_all_length)
qed

lemma index2_inbounds:
  assumes "grid_shape a nrow ncol" "0 \<le> y" "y < nrow" "0 \<le> x" "x < ncol"
  shows "index2 a y x = Inr (a ! nat y ! nat x)"
proof -
  from assms have l: "int (length a) = nrow" by (simp add: grid_shape_def)
  from grid_row_length [OF assms(1-3)] have r: "int (length (a ! nat y)) = ncol" .
  show ?thesis using assms(2-5) l r by (simp add: index2_def Let_def)
qed

lemma index2_row_outside:
  assumes "grid_shape a nrow ncol" "y = nrow" "0 \<le> nrow"
  shows "index2 a y x = Inl IndexError"
  using assms by (simp add: index2_def Let_def grid_shape_def)

lemma valid_mask_shape: "grid_shape (valid_mask stack) nrow ncol = grid_shape stack nrow ncol"
  by (simp add: grid_shape_def valid_mask_def list_all_iff)

lemma valid_mask_nth:
  assumes "grid_shape stack nrow ncol" "0 \<le> y" "y < nrow" "0 \<le> x" "x < ncol"
  shows "valid_mask stack ! nat y ! nat x = (stack ! nat y ! nat x \<noteq> NaN)"
proof -
  from assms(1-3) have "nat y < length stack" by (rule grid_nat_lt)
  moreover from grid_row_length [OF assms(1-3)] assms(4,5) have "nat x < length (stack ! nat y)" by simp
  ultimately show ?thesis by (simp add: valid_mask_def)
qed

lemma count_true_pos:
  assumes "y < length m" "x < length (m ! y)" "m ! y ! x"
  shows "count_true m \<noteq> 0"
proof -
  from assms(1,2) have "m ! y ! x \<in> set (m ! y)" by simp
  moreover from assms(1) have "m ! y \<in> set m" by simp
  ultimately have "m ! y ! x \<in> set (concat m)" by auto
  with assms(3) have "True \<in> set (filter (\<lambda>b. b) (concat m))" by simp
  then have "filter (\<lambda>b. b) (concat m) \<noteq> []" by (metis empty_iff list.set(1))
  then show ?thesis by (simp add: count_true_def)
qed

lemma valid_pixel_count:
  assumes "grid_shape stack nrow ncol" "0 \<le> y" "y < nrow" "0 \<le> x" "x < ncol"
    "stack ! nat y ! nat x \<noteq> NaN"
  shows "count_true (valid_mask stack) \<noteq> 0"
proof -
  have g: "grid_shape (valid_mask stack) nrow ncol" using assms(1) by (simp add: valid_mask_shape)
  then have "nat y < length (valid_mask stack)" using assms(2,3) by (rule grid_nat_lt)
  moreover from grid_row_length [OF g assms(2,3)] assms(4,5)
  have "nat x < length (valid_mask stack ! nat y)" by simp
  moreover have "valid_mask stack ! nat y ! nat x" using valid_mask_nth [OF assms(1-5)] assms(6) by simp
  ultimately show ?thesis by (rule count_true_pos)
qed

lemma manual_select_rel:
  assumes "j = i\<lparr>ref_y := ref_y j, ref_x := ref_x j\<rparr>"
  shows "manual_select_reference_yx stack cl j = manual_select_reference_yx stack cl i
         \<or> (manual_select_reference_yx stack cl j = j \<and> manual_select_reference_yx stack cl i = i)"
  using assms
proof (induction cl arbitrary: i j)
  case Nil
  then show ?case by simp
next
  case (Cons c cl)
  obtain y x where c: "c = (y, x)" by (cases c)
  show ?case
  proof (cases "\<exists>v. index2 stack y x = Inr (Val v)")
    case True
    then obtain v where v: "index2 stack y x = Inr (Val v)" by blast
    have "j\<lparr>ref_y := Some y, ref_x := Some x\<rparr> = i\<lparr>ref_y := Some y, ref_x := Some x\<rparr>"
      by (subst Cons.prems) simp
    with c v show ?thesis by simp
  next
    case False
    then have "(case index2 stack y x of Inr (Val v) \<Rightarrow> k\<lparr>ref_y := Some y, ref_x := Some x\<rparr> | _ \<Rightarrow> k) = k"
      for k :: inps
      by (auto split: sum.splits pixel.splits)
    with c Cons.IH [OF Cons.prems] show ?thesis by simp
  qed
qed

lemma seed_reference_falsy:
  assumes "\<not> (truthy_int (ref_y i) \<and> truthy_int (ref_x i))"
  shows "seed_reference_yx env fs File file outFile vmask i = (fs, Inl ValueError)"
  using assms by (auto simp: seed_reference_yx_def truthy_int_def split: option.splits)

lemma seed_file_inps_falsy:
  assumes "\<not> (truthy_int (ref_y i) \<and> truthy_int (ref_x i))"
  shows "map_option snd (seed_file_inps env fs File i outFile)
           = map_option snd (seed_file_inps env fs File (i\<lparr>ref_y := None, ref_x := None\<rparr>) outFile)"
proof (cases "fs File")
  case None
  then show ?thesis by (simp add: seed_file_inps_def Let_def)
next
  case (Some sf)
  let ?j = "i\<lparr>ref_y := None, ref_x := None\<rparr>"
  let ?m = "valid_mask (file_stack env)"
  let ?out = "outfile_name outFile File"
  have fj: "\<not> (truthy_int (ref_y ?j) \<and> truthy_int (ref_x ?j))" by (simp add: truthy_int_def)
  show ?thesis
  proof (cases "count_true ?m = 0")
    case True
    with Some show ?thesis by (simp add: seed_file_inps_def Let_def)
  next
    case nz: False
    show ?thesis
    proof (cases "seed_method i = ''global-average''")
      case True
      with Some nz show ?thesis by (simp add: seed_file_inps_def Let_def split: prod.splits)
    next
      case ng: False
      have ci: "\<not> truthy_int (ref_y i) \<or> \<not> truthy_int (ref_x i)" using assms by simp
      have cj: "\<not> truthy_int (ref_y ?j) \<or> \<not> truthy_int (ref_x ?j)" by (simp add: truthy_int_def)
      have si: "seed_file_inps env fs File i outFile
                 = (case find_reference_yx env ?m (file_stack env) i of
                     None \<Rightarrow> None
                   | Some (inps1, Some e) \<Rightarrow> Some (inps1, fs, Inl e)
                   | Some (inps1, None) \<Rightarrow>
                       (case seed_reference_yx env fs File sf ?out ?m inps1 of
                          (fs', r) \<Rightarrow> Some (inps1, fs', r)))"
        using Some nz ng by (simp add: seed_file_inps_def Let_def)
      have sj: "seed_file_inps env fs File ?j outFile
                 = (case find_reference_yx env ?m (file_stack env) ?j of
                     None \<Rightarrow> None
                   | Some (inps1, Some e) \<Rightarrow> Some (inps1, fs, Inl e)
                   | Some (inps1, None) \<Rightarrow>
                       (case seed_reference_yx env fs File sf ?out ?m inps1 of
                          (fs', r) \<Rightarrow> Some (inps1, fs', r)))"
        using Some nz ng by (simp add: seed_file_inps_def Let_def)
      show ?thesis
      proof (cases "truthy_str (coherence_file i)")
        case True
        then have "find_reference_yx env ?m (file_stack env) ?j
                   = (case select_max_coherence_yx env ?m (min_coherence i) of
                   None \<Rightarrow> None
                 | Some (Inl e) \<Rightarrow> Some (i\<lparr>seed_method := ''max-coherence'', ref_y := None, ref_x := None\<rparr>, Some e)
                 | Some (Inr (y, x)) \<Rightarrow>
                     Some (i\<lparr>seed_method := ''max-coherence'', ref_y := Some y, ref_x := Some x\<rparr>,
                           None))"
          by (simp add: find_reference_yx_def truthy_int_def split: option.splits sum.splits)
        moreover from True ci have "find_reference_yx env ?m (file_stack env) i
                   = (case select_max_coherence_yx env ?m (min_coherence i) of
                   None \<Rightarrow> None
                 | Some (Inl e) \<Rightarrow> Some (i\<lparr>seed_method := ''max-coherence''\<rparr>, Some e)
                 | Some (Inr (y, x)) \<Rightarrow>
                     Some (i\<lparr>seed_method := ''max-coherence'', ref_y := Some y, ref_x := Some x\<rparr>,
                           None))"
          by (simp add: find_reference_yx_def)
        ultimately show ?thesis unfolding si sj
          by (simp split: option.splits sum.splits prod.splits)
      next
        case nc: False
        show ?thesis
        proof (cases "seed_method i = ''random''")
          case True
          then have "find_reference_yx env ?m (file_stack env) ?j
                   = (case random_select_reference_yx ?m (random_draws env) of
                   None \<Rightarrow> None
                 | Some (Inl e) \<Rightarrow> Some (?j, Some e)
                 | Some (Inr (y, x)) \<Rightarrow> Some (i\<lparr>ref_y := Some y, ref_x := Some x\<rparr>, None))"
            using nc by (simp add: find_reference_yx_def truthy_int_def split: option.splits sum.splits)
          moreover from True ci nc have "find_reference_yx env ?m (file_stack env) i
                   = (case random_select_reference_yx ?m (random_draws env) of
                   None \<Rightarrow> None
                 | Some (Inl e) \<Rightarrow> Some (i, Some e)
                 | Some (Inr (y, x)) \<Rightarrow> Some (i\<lparr>ref_y := Some y, ref_x := Some x\<rparr>, None))"
            by (simp add: find_reference_yx_def)
          ultimately show ?thesis unfolding si sj
            by (simp split: option.splits sum.splits prod.splits)
        next
          case nr: False
          show ?thesis
          proof (cases "seed_method i = ''manual''")
            case True
            let ?mi = "manual_select_reference_yx (file_stack env) (clicks env) i"
            let ?mj = "manual_select_reference_yx (file_stack env) (clicks env) ?j"
            have fi: "find_reference_yx env ?m (file_stack env) i = Some (?mi, None)"
              using True ci nc nr by (simp add: find_reference_yx_def)
            have fj': "find_reference_yx env ?m (file_stack env) ?j = Some (?mj, None)"
              using True nc nr by (simp add: find_reference_yx_def truthy_int_def)
            have "?j = i\<lparr>ref_y := ref_y ?j, ref_x := ref_x ?j\<rparr>" by simp
            from manual_select_rel [OF this, of "file_stack env" "clicks env"]
            consider "?mj = ?mi" | "?mj = ?j" "?mi = i" by blast
            then show ?thesis
            proof cases
              case 1
              then show ?thesis unfolding si sj fi fj' by simp
            next
              case 2
              have "seed_reference_yx env fs File sf ?out ?m ?mi = (fs, Inl ValueError)"
                unfolding 2 by (rule seed_reference_falsy [OF assms])
              moreover have "seed_reference_yx env fs File sf ?out ?m ?mj = (fs, Inl ValueError)"
                unfolding 2 by (rule seed_reference_falsy [OF fj])
              ultimately show ?thesis unfolding si sj fi fj' by simp
            qed
          next
            case nm: False
            have fi: "find_reference_yx env ?m (file_stack env) i = Some (i, None)"
              using nm ci nc nr by (simp add: find_reference_yx_def)
            have fj': "find_reference_yx env ?m (file_stack env) ?j = Some (?j, None)"
              using nm nc nr by (simp add: find_reference_yx_def truthy_int_def)
            have "seed_reference_yx env fs File sf ?out ?m i = (fs, Inl ValueError)"
              by (rule seed_reference_falsy [OF assms])
            moreover have "seed_reference_yx env fs File sf ?out ?m ?j = (fs, Inl ValueError)"
              by (rule seed_reference_falsy [OF fj])
            ultimately show ?thesis unfolding si sj fi fj' by simp
          qed
        qed
      qed
    qed
  qed
qed

lemma main_method_refs:
  "ref_y (main_method env i) = ref_y i" "ref_x (main_method env i) = ref_x i"
  by (simp_all add: main_method_def)

lemma main_method_falsy:
  assumes "\<not> (truthy_int (ref_y i) \<and> truthy_int (ref_x i))"
  shows "main_method env (i\<lparr>ref_y := None, ref_x := None\<rparr>)
           = (main_method env i)\<lparr>ref_y := None, ref_x := None\<rparr>"
  using assms by (auto simp: main_method_def truthy_int_def)

lemma main_from_yx_falsy:
  assumes "\<not> (truthy_int (ref_y i) \<and> truthy_int (ref_x i))"
  shows "map_option snd (main_from_yx env fs File i outfile)
           = map_option snd (main_from_yx env fs File (i\<lparr>ref_y := None, ref_x := None\<rparr>) outfile)"
proof -
  let ?j = "i\<lparr>ref_y := None, ref_x := None\<rparr>"
  have cov: "main_coverage env i = i"
    using assms by (auto simp: main_coverage_def truthy_int_def split: option.splits)
  have covj: "main_coverage env ?j = ?j" by (simp add: main_coverage_def)
  have mk: "main_masked env i = Inr i"
    using assms by (auto simp: main_masked_def truthy_int_def split: option.splits)
  have mkj: "main_masked env ?j = Inr ?j" by (simp add: main_masked_def)
  have f: "\<not> (truthy_int (ref_y (main_method env i)) \<and> truthy_int (ref_x (main_method env i)))"
    using assms by (simp add: main_method_refs)
  have "map_option snd (main_from_yx env fs File i outfile)
          = map_option snd (seed_file_inps env fs File (main_method env i) outfile)"
    by (simp add: main_from_yx_def cov mk)
  also have "\<dots> = map_option snd (seed_file_inps env fs File
                        ((main_method env i)\<lparr>ref_y := None, ref_x := None\<rparr>) outfile)"
    by (rule seed_file_inps_falsy [OF f])
  also have "\<dots> = map_option snd (main_from_yx env fs File ?j outfile)"
    by (simp add: main_from_yx_def covj mkj main_method_falsy [OF assms])
  finally show ?thesis .
qed

lemma main_latlon_direct:
  assumes "\<not> (truthy_real (ref_lat i) \<and> truthy_real (ref_lon i))"
  shows "main_latlon env i = i"
    and "main_latlon env (i\<lparr>ref_y := a, ref_x := b\<rparr>) = i\<lparr>ref_y := a, ref_x := b\<rparr>"
  using assms by (auto simp: main_latlon_def truthy_real_def split: option.splits)

text \<open>
  Claim C10. When the explicit coordinate that reaches the checks of \<^verbatim>\<open>main\<close> (given
  as row and column, or converted from latitude and longitude) has row 0 or column 0,
  the files written and the result of the run are those of the run in which no
  coordinate is there at that point: every test \<^verbatim>\<open>inps.ref_y and inps.ref_x\<close> is false,
  so the coordinate is neither checked nor committed, and a pixel comes from another
  strategy or the run fails. For a coordinate given as row and column this is the run
  with \<^verbatim>\<open>ref_y = ref_x = None\<close>.
\<close>

theorem zero_coordinate_as_not_supplied:
  "(ref_y (main_latlon env inps) = Some 0 \<or> ref_x (main_latlon env inps) = Some 0
      \<longrightarrow> map_option snd (main env fs File inps outfile)
          = map_option snd (main_from_yx env fs File
                              ((main_latlon env inps)\<lparr>ref_y := None, ref_x := None\<rparr>) outfile))
   \<and> (\<not> (truthy_real (ref_lat inps) \<and> truthy_real (ref_lon inps))
        \<and> (ref_y inps = Some 0 \<or> ref_x inps = Some 0)
      \<longrightarrow> map_option snd (main env fs File inps outfile)
          = map_option snd (main env fs File (inps\<lparr>ref_y := None, ref_x := None\<rparr>) outfile))"
proof (intro conjI impI)
  assume z: "ref_y (main_latlon env inps) = Some 0 \<or> ref_x (main_latlon env inps) = Some 0"
  then have "\<not> (truthy_int (ref_y (main_latlon env inps)) \<and> truthy_int (ref_x (main_latlon env inps)))"
    by (auto simp: truthy_int_def)
  from main_from_yx_falsy [OF this]
  show "map_option snd (main env fs File inps outfile)
          = map_option snd (main_from_yx env fs File
                              ((main_latlon env inps)\<lparr>ref_y := None, ref_x := None\<rparr>) outfile)"
    by (simp add: main_def)
next
  assume a: "\<not> (truthy_real (ref_lat inps) \<and> truthy_real (ref_lon inps))
        \<and> (ref_y inps = Some 0 \<or> ref_x inps = Some 0)"
  then have d: "\<not> (truthy_real (ref_lat inps) \<and> truthy_real (ref_lon inps))" by simp
  from a have "\<not> (truthy_int (ref_y inps) \<and> truthy_int (ref_x inps))"
    by (auto simp: truthy_int_def)
  from main_from_yx_falsy [OF this]
  show "map_option snd (main env fs File inps outfile)
          = map_option snd (main env fs File (inps\<lparr>ref_y := None, ref_x := None\<rparr>) outfile)"
    by (simp add: main_def main_latlon_direct [OF d])
qed

lemma index2_error: "index2 a y x = Inl e \<Longrightarrow> e = IndexError"
  by (auto simp: index2_def Let_def split: if_splits)

lemma random_select_error: "random_select_reference_yx m draws = Some (Inl e) \<Longrightarrow> e = IndexError"
  by (auto simp: random_select_reference_yx_def Let_def split: if_splits)

lemma select_coherence_error:
  "select_max_coherence_yx env m c = Some (Inl e) \<Longrightarrow> e = IndexError \<or> e = IOError"
  by (auto simp: select_max_coherence_yx_def split: if_splits dest: random_select_error)

lemma find_reference_error:
  assumes "find_reference_yx env m stack i = Some (i1, Some e)"
  shows "e = IndexError \<or> e = IOError"
proof -
  from assms show ?thesis
    unfolding find_reference_yx_def
    by (auto split: if_splits option.splits sum.splits prod.splits
          dest: random_select_error select_coherence_error)
qed

lemma seed_value_no_exit:
  assumes "fs File = Some sf"
      and "\<forall>k entries gattrs. sf = Multi k entries gattrs \<longrightarrow> length refList = length entries"
  shows "snd (seed_file_reference_value env fs File out refList a b) \<noteq> Inl (SystemExit n)"
proof (cases sf)
  case (Multi k entries gattrs)
  with assms(2) have "length refList = length entries" by simp
  with assms(1) Multi show ?thesis
    by (simp add: seed_file_reference_value_def getitem_def Let_def epoch_list_def
          split: option.splits)
next
  case (SingleDataset data atr)
  with assms(1) show ?thesis
    by (simp add: seed_file_reference_value_def getitem_def Let_def sub_single_def
          split: option.splits)
qed

lemma seed_reference_no_exit:
  assumes "fs File = Some sf"
      and "\<forall>k entries gattrs m box. sf = Multi k entries gattrs
             \<longrightarrow> length (spatial_average env sf m box) = length entries"
  shows "snd (seed_reference_yx env fs File sf out m i) \<noteq> Inl (SystemExit n)"
proof -
  have v: "snd (seed_file_reference_value env fs File out (spatial_average env sf m box) a b)
             \<noteq> Inl (SystemExit n)" for box a b
    by (rule seed_value_no_exit [where fs = fs and File = File, OF assms(1)]) (use assms(2) in blast)
  have y: "snd (seed_yx env fs File sf out mk m y x) \<noteq> Inl (SystemExit n)" for mk y x
    using v by (simp add: seed_yx_def split: prod.splits)
  show ?thesis
    unfolding seed_reference_yx_def
    using y by (auto split: option.splits sum.splits dest: index2_error)
qed

lemma seed_file_inps_no_exit:
  assumes "fs File = Some sf"
      and "\<forall>k entries gattrs m box. sf = Multi k entries gattrs
             \<longrightarrow> length (spatial_average env sf m box) = length entries"
      and "count_true (valid_mask (file_stack env)) \<noteq> 0"
  shows "seed_file_inps env fs File inps outFile \<noteq> Some (i', fs', Inl (SystemExit n))"
proof (cases "seed_method inps = ''global-average''")
  case True
  have "snd (seed_file_reference_value env fs File (outfile_name outFile File)
               (spatial_average env sf (valid_mask (file_stack env)) (0, 0, file_width env, file_length env))
               (AStr []) (AStr [])) \<noteq> Inl (SystemExit n)"
    by (rule seed_value_no_exit [where fs = fs and File = File, OF assms(1)]) (use assms(2) in blast)
  with True assms(1,3) show ?thesis
    by (auto simp: seed_file_inps_def Let_def split: prod.splits)
next
  case False
  show ?thesis
  proof (cases "find_reference_yx env (valid_mask (file_stack env)) (file_stack env) inps")
    case None
    with False assms(1,3) show ?thesis by (simp add: seed_file_inps_def Let_def)
  next
    case (Some r)
    obtain i1 eo where r: "r = (i1, eo)" by (cases r)
    show ?thesis
    proof (cases eo)
      case None
      have "snd (seed_reference_yx env fs File sf (outfile_name outFile File)
                   (valid_mask (file_stack env)) i1) \<noteq> Inl (SystemExit n)"
        by (rule seed_reference_no_exit [where fs = fs and File = File, OF assms(1,2)])
      with False assms(1,3) Some r None show ?thesis
        by (auto simp: seed_file_inps_def Let_def split: prod.splits)
    next
      case (Some e)
      with \<open>find_reference_yx env (valid_mask (file_stack env)) (file_stack env) inps = Some r\<close> r
      have "e = IndexError \<or> e = IOError" using find_reference_error by blast
      with False assms(1,3) Some r \<open>find_reference_yx env (valid_mask (file_stack env)) (file_stack env) inps = Some r\<close>
      show ?thesis by (auto simp: seed_file_inps_def Let_def)
    qed
  qed
qed

text \<open>
  Claim C3, as the code has it. For a file that exists and a \<^verbatim>\<open>spatial_average\<close> that
  gives one value per epoch: when the validity mask (the pixels of the stack that are not
  \<^verbatim>\<open>NaN\<close>) has no true pixel, seeding ends with \<^verbatim>\<open>sys.exit(1)\<close>, whatever the random
  source and the clicks are, with the namespace and every file as they were; when the mask
  has a true pixel, seeding never ends with \<^verbatim>\<open>sys.exit\<close>. It can still abort there, with
  the ValueError of line 191.
\<close>

theorem seeding_exit_iff_empty_mask:
  assumes "fs File = Some sf"
      and "\<forall>k entries gattrs m box. sf = Multi k entries gattrs
             \<longrightarrow> length (spatial_average env sf m box) = length entries"
  shows "(count_true (valid_mask (file_stack env)) = 0
            \<longrightarrow> seed_file_inps env fs File inps outFile = Some (inps, fs, Inl (SystemExit 1)))
       \<and> (count_true (valid_mask (file_stack env)) \<noteq> 0
            \<longrightarrow> (\<forall>i' fs' n. seed_file_inps env fs File inps outFile
                                \<noteq> Some (i', fs', Inl (SystemExit n))))"
proof (intro conjI impI allI)
  assume "count_true (valid_mask (file_stack env)) = 0"
  with assms(1) show "seed_file_inps env fs File inps outFile = Some (inps, fs, Inl (SystemExit 1))"
    by (simp add: seed_file_inps_def Let_def)
next
  fix i' fs' n
  assume "count_true (valid_mask (file_stack env)) \<noteq> 0"
  from seed_file_inps_no_exit [where fs = fs and File = File, OF assms this]
  show "seed_file_inps env fs File inps outFile \<noteq> Some (i', fs', Inl (SystemExit n))" .
qed

lemma main_latlon_fields:
  "mask_file (main_latlon env i) = mask_file i"
  "mark_attribute (main_latlon env i) = mark_attribute i"
  "coherence_file (main_latlon env i) = coherence_file i"
  "seed_method (main_latlon env i) = seed_method i"
  by (simp_all add: main_latlon_def split: option.splits prod.splits)

lemma main_coverage_outside:
  assumes "ref_y i = Some y" "ref_x i = Some x" "y \<noteq> 0" "x \<noteq> 0"
    "y < 0 \<or> file_length env < y \<or> x < 0 \<or> file_width env < x"
  shows "main_coverage env i = i\<lparr>ref_y := None, ref_x := None\<rparr>"
  using assms by (auto simp: main_coverage_def)

lemma main_coverage_inside:
  assumes "ref_y i = Some y" "ref_x i = Some x"
    "0 \<le> y" "y \<le> file_length env" "0 \<le> x" "x \<le> file_width env"
  shows "main_coverage env i = i"
  using assms by (simp add: main_coverage_def)

lemma main_coverage_none: "main_coverage env (i\<lparr>ref_y := None, ref_x := None\<rparr>) = i\<lparr>ref_y := None, ref_x := None\<rparr>"
  by (simp add: main_coverage_def)

lemma main_masked_none: "main_masked env (i\<lparr>ref_y := None, ref_x := None\<rparr>) = Inr (i\<lparr>ref_y := None, ref_x := None\<rparr>)"
  by (simp add: main_masked_def)

lemma main_masked_pass:
  assumes "ref_y i = Some y" "ref_x i = Some x" "0 \<le> y" "y < file_length env" "0 \<le> x" "x < file_width env"
    "truthy_str (mask_file i) \<longrightarrow> grid_shape (mask_raster env) (file_length env) (file_width env)"
    "truthy_str (mask_file i) \<longrightarrow> mask_raster env ! nat y ! nat x \<noteq> Val 0"
  shows "main_masked env i = Inr i"
proof (cases "truthy_str (mask_file i)")
  case True
  with assms(7) have g: "grid_shape (mask_raster env) (file_length env) (file_width env)" by simp
  from index2_inbounds [OF g assms(3-6)] True assms(1,2,8) show ?thesis
    by (simp add: main_masked_def)
next
  case False
  with assms(1,2) show ?thesis by (simp add: main_masked_def)
qed

lemma main_masked_out:
  assumes "ref_y i = Some y" "ref_x i = Some x" "y \<noteq> 0" "x \<noteq> 0"
    "0 \<le> y" "y < file_length env" "0 \<le> x" "x < file_width env"
    "truthy_str (mask_file i)" "grid_shape (mask_raster env) (file_length env) (file_width env)"
    "mask_raster env ! nat y ! nat x = Val 0"
  shows "main_masked env i = Inr (i\<lparr>ref_y := None, ref_x := None\<rparr>)"
  using index2_inbounds [OF assms(10) assms(5-8)] assms(1-4,9,11)
  by (simp add: main_masked_def)

lemma main_method_input:
  assumes "ref_y i = Some y" "ref_x i = Some x" "y \<noteq> 0" "x \<noteq> 0"
  shows "main_method env i = i\<lparr>seed_method := ''input-coord''\<rparr>"
  using assms by (simp add: main_method_def truthy_int_def)

lemma seed_file_inps_input_coord:
  assumes "fs File = Some sf" "count_true (valid_mask (file_stack env)) \<noteq> 0"
    "seed_method i = ''input-coord''" "ref_y i = Some y" "ref_x i = Some x" "y \<noteq> 0" "x \<noteq> 0"
  shows "seed_file_inps env fs File i outfile
           = (case seed_reference_yx env fs File sf (outfile_name outfile File)
                     (valid_mask (file_stack env)) i of (fs', r) \<Rightarrow> Some (i, fs', r))"
  using assms by (simp add: seed_file_inps_def Let_def find_reference_yx_def truthy_int_def)

text \<open>
  Claim C7, as the code has it, for an explicit coordinate whose row and column are not 0,
  on a stack (and mask raster, when a mask file is given) of the file's length and width.
  Strictly inside the raster, not masked out by the mask file and with a stack value that
  is not missing, the coordinate is committed: the file is seeded at it with the method
  \<^verbatim>\<open>input-coord\<close>. Below 0 or beyond the length or width, or inside and masked out by
  the mask file, it is dropped and the run continues as the run without a coordinate.
  Inside, not masked out by the mask file, but with a missing stack value, the run ends
  with the ValueError of line 191 instead of trying the next strategy. A row equal to the
  length and a column equal to the width are left out here.
\<close>

theorem explicit_coordinate_resolution:
  assumes "fs File = Some sf"
      and "grid_shape (file_stack env) (file_length env) (file_width env)"
      and "truthy_str (mask_file inps)
             \<longrightarrow> grid_shape (mask_raster env) (file_length env) (file_width env)"
      and "ref_y (main_latlon env inps) = Some y" and "ref_x (main_latlon env inps) = Some x"
      and "y \<noteq> 0" and "x \<noteq> 0"
  shows "(0 < y \<and> y < file_length env \<and> 0 < x \<and> x < file_width env
            \<and> (truthy_str (mask_file inps) \<longrightarrow> mask_raster env ! nat y ! nat x \<noteq> Val 0)
            \<and> file_stack env ! nat y ! nat x \<noteq> NaN
          \<longrightarrow> main env fs File inps outfile
              = (case seed_yx env fs File sf (outfile_name outfile File) (mark_attribute inps)
                        (valid_mask (file_stack env)) y x of
                   (fs', r) \<Rightarrow>
                     Some ((main_latlon env inps)\<lparr>seed_method := ''input-coord''\<rparr>, fs', r)))
       \<and> (y < 0 \<or> file_length env < y \<or> x < 0 \<or> file_width env < x
          \<longrightarrow> main env fs File inps outfile
              = main_from_yx env fs File ((main_latlon env inps)\<lparr>ref_y := None, ref_x := None\<rparr>)
                  outfile)
       \<and> (0 < y \<and> y < file_length env \<and> 0 < x \<and> x < file_width env
            \<and> truthy_str (mask_file inps) \<and> mask_raster env ! nat y ! nat x = Val 0
          \<longrightarrow> main env fs File inps outfile
              = main_from_yx env fs File ((main_latlon env inps)\<lparr>ref_y := None, ref_x := None\<rparr>)
                  outfile)
       \<and> (0 < y \<and> y < file_length env \<and> 0 < x \<and> x < file_width env
            \<and> (truthy_str (mask_file inps) \<longrightarrow> mask_raster env ! nat y ! nat x \<noteq> Val 0)
            \<and> file_stack env ! nat y ! nat x = NaN
            \<and> count_true (valid_mask (file_stack env)) \<noteq> 0
          \<longrightarrow> main env fs File inps outfile
              = Some ((main_latlon env inps)\<lparr>seed_method := ''input-coord''\<rparr>, fs, Inl ValueError))"
proof -
  let ?i = "main_latlon env inps"
  let ?j = "?i\<lparr>ref_y := None, ref_x := None\<rparr>"
  let ?k = "?i\<lparr>seed_method := ''input-coord''\<rparr>"
  let ?m = "valid_mask (file_stack env)"
  note y = assms(4) and x = assms(5) and yn = assms(6) and xn = assms(7)
  have mf: "truthy_str (mask_file ?i) = truthy_str (mask_file inps)" by (simp add: main_latlon_fields)
  have inside: "main env fs File inps outfile
                  = (case seed_reference_yx env fs File sf (outfile_name outfile File) ?m ?k of
                       (fs', r) \<Rightarrow> Some (?k, fs', r))"
    if b: "0 < y" "y < file_length env" "0 < x" "x < file_width env"
      and p: "truthy_str (mask_file inps) \<longrightarrow> mask_raster env ! nat y ! nat x \<noteq> Val 0"
      and c: "count_true ?m \<noteq> 0"
  proof -
    have cov: "main_coverage env ?i = ?i"
      by (rule main_coverage_inside [OF y x]) (use b in simp_all)
    have mk: "main_masked env ?i = Inr ?i"
      by (rule main_masked_pass [OF y x]) (use b p assms(3) mf in simp_all)
    have mm: "main_method env ?i = ?k" by (rule main_method_input [OF y x yn xn])
    have "seed_file_inps env fs File ?k outfile
           = (case seed_reference_yx env fs File sf (outfile_name outfile File) ?m ?k of
                (fs', r) \<Rightarrow> Some (?k, fs', r))"
      by (rule seed_file_inps_input_coord [where y = y and x = x]) (use assms(1) c y x yn xn in simp_all)
    then show ?thesis by (simp add: main_def main_from_yx_def cov mk mm)
  qed
  have idx: "index2 ?m y x = Inr (file_stack env ! nat y ! nat x \<noteq> NaN)"
    if b: "0 < y" "y < file_length env" "0 < x" "x < file_width env"
  proof -
    have g: "grid_shape ?m (file_length env) (file_width env)"
      using assms(2) by (simp add: valid_mask_shape)
    have "index2 ?m y x = Inr (?m ! nat y ! nat x)"
      by (rule index2_inbounds [OF g]) (use b in simp_all)
    moreover have "?m ! nat y ! nat x = (file_stack env ! nat y ! nat x \<noteq> NaN)"
      by (rule valid_mask_nth [OF assms(2)]) (use b in simp_all)
    ultimately show ?thesis by simp
  qed
  have c1: "main env fs File inps outfile
              = (case seed_yx env fs File sf (outfile_name outfile File) (mark_attribute inps) ?m y x of
                   (fs', r) \<Rightarrow> Some (?k, fs', r))"
    if "0 < y \<and> y < file_length env \<and> 0 < x \<and> x < file_width env
            \<and> (truthy_str (mask_file inps) \<longrightarrow> mask_raster env ! nat y ! nat x \<noteq> Val 0)
            \<and> file_stack env ! nat y ! nat x \<noteq> NaN"
  proof -
    from that have b: "0 < y" "y < file_length env" "0 < x" "x < file_width env"
      and p: "truthy_str (mask_file inps) \<longrightarrow> mask_raster env ! nat y ! nat x \<noteq> Val 0"
      and v: "file_stack env ! nat y ! nat x \<noteq> NaN" by simp_all
    have c: "count_true ?m \<noteq> 0"
      by (rule valid_pixel_count [OF assms(2) _ b(2) _ b(4) v]) (use b in simp_all)
    have "seed_reference_yx env fs File sf (outfile_name outfile File) ?m ?k
            = seed_yx env fs File sf (outfile_name outfile File) (mark_attribute inps) ?m y x"
      using y x yn xn idx [OF b] v by (simp add: seed_reference_yx_def main_latlon_fields)
    with inside [OF b p c] show ?thesis by simp
  qed
  have c2: "main env fs File inps outfile = main_from_yx env fs File ?j outfile"
    if "y < 0 \<or> file_length env < y \<or> x < 0 \<or> file_width env < x"
  proof -
    have "main_coverage env ?i = ?j" by (rule main_coverage_outside [OF y x yn xn that])
    then show ?thesis by (simp add: main_def main_from_yx_def main_coverage_none main_masked_none)
  qed
  have c3: "main env fs File inps outfile = main_from_yx env fs File ?j outfile"
    if "0 < y \<and> y < file_length env \<and> 0 < x \<and> x < file_width env
            \<and> truthy_str (mask_file inps) \<and> mask_raster env ! nat y ! nat x = Val 0"
  proof -
    from that have b: "0 < y" "y < file_length env" "0 < x" "x < file_width env"
      and t: "truthy_str (mask_file inps)" and z: "mask_raster env ! nat y ! nat x = Val 0" by simp_all
    have cov: "main_coverage env ?i = ?i"
      by (rule main_coverage_inside [OF y x]) (use b in simp_all)
    have g: "grid_shape (mask_raster env) (file_length env) (file_width env)" using assms(3) t by simp
    have mk: "main_masked env ?i = Inr ?j"
      by (rule main_masked_out [OF y x yn xn _ b(2) _ b(4) _ g z]) (use b t mf in simp_all)
    show ?thesis by (simp add: main_def main_from_yx_def cov mk main_coverage_none main_masked_none)
  qed
  have c4: "main env fs File inps outfile = Some (?k, fs, Inl ValueError)"
    if "0 < y \<and> y < file_length env \<and> 0 < x \<and> x < file_width env
            \<and> (truthy_str (mask_file inps) \<longrightarrow> mask_raster env ! nat y ! nat x \<noteq> Val 0)
            \<and> file_stack env ! nat y ! nat x = NaN
            \<and> count_true (valid_mask (file_stack env)) \<noteq> 0"
  proof -
    from that have b: "0 < y" "y < file_length env" "0 < x" "x < file_width env"
      and p: "truthy_str (mask_file inps) \<longrightarrow> mask_raster env ! nat y ! nat x \<noteq> Val 0"
      and v: "file_stack env ! nat y ! nat x = NaN" and c: "count_true ?m \<noteq> 0" by simp_all
    have "seed_reference_yx env fs File sf (outfile_name outfile File) ?m ?k = (fs, Inl ValueError)"
      using y x yn xn idx [OF b] v by (simp add: seed_reference_yx_def)
    with inside [OF b p c] show ?thesis by simp
  qed
  from c1 c2 c3 c4 show ?thesis by blast
qed

lemma example_fs: "example_seedfiles ''ts.h5'' = Some example_ts"
  by (simp add: example_seedfiles_def)

lemma example_mask:
  "valid_mask (file_stack example_env)
     = [[True, True, True], [True, False, True], [True, True, True]]"
  by (simp add: valid_mask_def example_env_def)

lemma example_count_lit:
  "count_true [[True, True, True], [True, False, True], [True, True, True]] = 8"
  by (simp add: count_true_def)

lemma example_count: "count_true (valid_mask (file_stack example_env)) = 8"
  by (simp add: example_mask example_count_lit)

lemma example_env_fields:
  "file_length example_env = 3" "file_width example_env = 3" "coherence_isfile example_env"
  "random_draws example_env = [2, 2]" "clicks example_env = []"
  "mask_raster example_env = [[Val 1, Val 1, Val 1], [Val 1, Val 1, Val 0], [Val 1, Val 1, Val 1]]"
  "coherence_raster example_env = [[Val 0.1, Val 0.1, Val 0.1], [Val 0.1, Val 0.9, Val 0.1],
                           [Val 0.1, Val 0.1, Val 0.9]]"
  "file_stack example_env = [[Val 3, Val 6, Val 9], [Val 12, NaN, Val 18], [Val 21, Val 24, Val 27]]"
  by (simp_all add: example_env_def)

lemma example_shapes:
  "grid_shape (file_stack example_env) (file_length example_env) (file_width example_env)"
  "grid_shape (mask_raster example_env) (file_length example_env) (file_width example_env)"
  by (simp_all add: grid_shape_def example_env_fields)

lemma example_index:
  "index2 [[True, True, True], [True, False, True], [True, True, True]] 3 1 = Inl IndexError"
  "index2 [[True, True, True], [True, False, True], [True, True, True]] 1 1 = Inr False"
  "index2 [[True, True, True], [True, False, True], [True, True, True]] 2 2 = Inr True"
  by (simp_all add: index2_def)

lemma example_select:
  "select_max_coherence_yx example_env [[True, True, True], [True, False, True], [True, True, True]] (17 / 20)
     = Some (Inr (2, 2))"
  by (simp add: select_max_coherence_yx_def example_env_fields coherence_mask_def
        random_select_reference_yx_def Let_def)

lemmas main_defs = main_def main_latlon_def main_from_yx_def main_coverage_def main_masked_def
  main_method_def seed_file_inps_def find_reference_yx_def seed_reference_yx_def
  truthy_int_def truthy_str_def Let_def

text \<open>
  Claim C8 at the example of three rows, with a coherence file that exists. The row 3 is
  outside the raster, yet the test \<^verbatim>\<open>0 <= inps.ref_y <= length\<close> of line 483 keeps it, the
  coherence strategy is not tried, and indexing the mask raises IndexError. The row 4 is
  dropped, and the pixel (2, 2) of the coherence strategy is used.
\<close>

theorem boundary_row_raises:
  "file_length example_env = 3
   \<and> coherence_isfile example_env
   \<and> main example_env example_seedfiles ''ts.h5''
       (example_inps\<lparr>coherence_file := Some ''coh.h5'', ref_y := Some 3, ref_x := Some 1\<rparr>) None
     = Some (example_inps\<lparr>coherence_file := Some ''coh.h5'', ref_y := Some 3, ref_x := Some 1,
                            seed_method := ''input-coord''\<rparr>, example_seedfiles, Inl IndexError)
   \<and> main example_env example_seedfiles ''ts.h5''
       (example_inps\<lparr>coherence_file := Some ''coh.h5'', ref_y := Some 4, ref_x := Some 1\<rparr>) None
     = (case seed_yx example_env example_seedfiles ''ts.h5'' example_ts ''Seeded_ts.h5'' False
               (valid_mask (file_stack example_env)) 2 2 of
          (fs', r) \<Rightarrow>
            Some (example_inps\<lparr>coherence_file := Some ''coh.h5'', ref_y := Some 2, ref_x := Some 2,
                            seed_method := ''max-coherence''\<rparr>, fs', r))"
proof -
  have a: "main example_env example_seedfiles ''ts.h5''
       (example_inps\<lparr>coherence_file := Some ''coh.h5'', ref_y := Some 3, ref_x := Some 1\<rparr>) None
     = Some (example_inps\<lparr>coherence_file := Some ''coh.h5'', ref_y := Some 3, ref_x := Some 1,
                            seed_method := ''input-coord''\<rparr>, example_seedfiles, Inl IndexError)"
    by (simp add: main_defs example_inps_def example_env_fields(1-5) example_fs example_count_lit
          example_mask example_index)
  have b: "main example_env example_seedfiles ''ts.h5''
       (example_inps\<lparr>coherence_file := Some ''coh.h5'', ref_y := Some 4, ref_x := Some 1\<rparr>) None
     = (case seed_yx example_env example_seedfiles ''ts.h5'' example_ts ''Seeded_ts.h5'' False
               [[True, True, True], [True, False, True], [True, True, True]] 2 2 of
          (fs', r) \<Rightarrow>
            Some (example_inps\<lparr>coherence_file := Some ''coh.h5'', ref_y := Some 2, ref_x := Some 2,
                            seed_method := ''max-coherence''\<rparr>, fs', r))"
    by (simp add: main_defs example_inps_def example_env_fields(1-5) example_fs example_count_lit
          example_mask example_select example_index outfile_name_def basename_def)
  from a b show ?thesis by (simp add: example_env_fields(1,3) example_mask)
qed

text \<open>
  Claim C7 as stated fails where the stack misses the value at the explicit coordinate:
  the pixel (1, 1) is inside the raster and not in the validity mask, a coherence file is
  there for the next strategy, and the run ends with ValueError.
\<close>

theorem missing_data_raises_counterexample:
  "index2 (valid_mask (file_stack example_env)) 1 1 = Inr False
   \<and> coherence_isfile example_env
   \<and> main example_env example_seedfiles ''ts.h5''
       (example_inps\<lparr>coherence_file := Some ''coh.h5'', ref_y := Some 1, ref_x := Some 1\<rparr>) None
     = Some (example_inps\<lparr>coherence_file := Some ''coh.h5'', ref_y := Some 1, ref_x := Some 1,
                            seed_method := ''input-coord''\<rparr>, example_seedfiles, Inl ValueError)"
proof -
  have "main example_env example_seedfiles ''ts.h5''
       (example_inps\<lparr>coherence_file := Some ''coh.h5'', ref_y := Some 1, ref_x := Some 1\<rparr>) None
     = Some (example_inps\<lparr>coherence_file := Some ''coh.h5'', ref_y := Some 1, ref_x := Some 1,
                            seed_method := ''input-coord''\<rparr>, example_seedfiles, Inl ValueError)"
    by (simp add: main_defs example_inps_def example_env_fields(1-5) example_fs example_count_lit
          example_mask example_index)
  then show ?thesis by (simp add: example_mask example_index example_env_fields(3))
qed

text \<open>
  Claim C3 as stated fails in the direction from the abort to the mask: the validity mask
  of the example has eight true pixels, and seeding at the missing pixel (1, 1) aborts
  with ValueError.
\<close>

theorem valid_mask_abort_counterexample:
  "count_true (valid_mask (file_stack example_env)) = 8
   \<and> seed_file_inps example_env example_seedfiles ''ts.h5''
       (example_inps\<lparr>seed_method := ''input-coord'', ref_y := Some 1, ref_x := Some 1\<rparr>) None
     = Some (example_inps\<lparr>seed_method := ''input-coord'', ref_y := Some 1, ref_x := Some 1\<rparr>,
             example_seedfiles, Inl ValueError)"
proof -
  have "seed_file_inps example_env example_seedfiles ''ts.h5''
       (example_inps\<lparr>seed_method := ''input-coord'', ref_y := Some 1, ref_x := Some 1\<rparr>) None
     = Some (example_inps\<lparr>seed_method := ''input-coord'', ref_y := Some 1, ref_x := Some 1\<rparr>,
             example_seedfiles, Inl ValueError)"
    by (simp add: main_defs example_inps_def example_fs example_count_lit example_mask example_index)
  then show ?thesis by (simp add: example_count)
qed

lemma example_average_length:
  "\<forall>k entries gattrs m box. example_ts = Multi k entries gattrs
      \<longrightarrow> length (spatial_average env' example_ts m box) = length entries"
  if "spatial_average env' = windowed_masked_mean" for env'
  using that by (simp add: windowed_masked_mean_def example_ts_def epoch_list_def)

text \<open>The theorem at a stack without a valid pixel and at the example stack.\<close>

theorem seeding_exit_iff_empty_mask_witness:
  "example_seedfiles ''ts.h5'' = Some example_ts
   \<and> count_true (valid_mask (file_stack (example_env\<lparr>file_stack := [[NaN, NaN]]\<rparr>))) = 0
   \<and> seed_file_inps (example_env\<lparr>file_stack := [[NaN, NaN]]\<rparr>) example_seedfiles ''ts.h5''
        example_inps None
       = Some (example_inps, example_seedfiles, Inl (SystemExit 1))
   \<and> count_true (valid_mask (file_stack example_env)) \<noteq> 0
   \<and> seed_file_inps example_env example_seedfiles ''ts.h5'' example_inps None
       \<noteq> Some (example_inps, example_seedfiles, Inl (SystemExit 1))"
proof -
  let ?e = "example_env\<lparr>file_stack := [[NaN, NaN]]\<rparr>"
  have z: "count_true (valid_mask (file_stack ?e)) = 0"
    by (simp add: valid_mask_def count_true_def)
  have s1: "spatial_average ?e = windowed_masked_mean" by (simp add: example_env_def)
  have s2: "spatial_average example_env = windowed_masked_mean" by (simp add: example_env_def)
  note t1 = seeding_exit_iff_empty_mask [where fs = example_seedfiles and File = "''ts.h5''"
      and env = ?e, OF example_fs example_average_length [OF s1], of example_inps None]
  note t2 = seeding_exit_iff_empty_mask [where fs = example_seedfiles and File = "''ts.h5''"
      and env = example_env, OF example_fs example_average_length [OF s2], of example_inps None]
  from t1 z have a: "seed_file_inps ?e example_seedfiles ''ts.h5'' example_inps None
       = Some (example_inps, example_seedfiles, Inl (SystemExit 1))" by blast
  have nz: "count_true (valid_mask (file_stack example_env)) \<noteq> 0" by (simp add: example_count)
  with t2 have b: "seed_file_inps example_env example_seedfiles ''ts.h5'' example_inps None
       \<noteq> Some (example_inps, example_seedfiles, Inl (SystemExit 1))" by blast
  from example_fs z a nz b show ?thesis by blast
qed

text \<open>The theorem at the row 0 with a coherence file, and at the column 0.\<close>

theorem zero_coordinate_as_not_supplied_witness:
  "ref_y (main_latlon example_env
            (example_inps\<lparr>coherence_file := Some ''coh.h5'', ref_y := Some 0, ref_x := Some 2\<rparr>))
     = Some 0
   \<and> map_option snd (main example_env example_seedfiles ''ts.h5''
                      (example_inps\<lparr>coherence_file := Some ''coh.h5'', ref_y := Some 0, ref_x := Some 2\<rparr>)
                      None)
     = map_option snd (main_from_yx example_env example_seedfiles ''ts.h5''
                      ((main_latlon example_env
                          (example_inps\<lparr>coherence_file := Some ''coh.h5'', ref_y := Some 0,
                                          ref_x := Some 2\<rparr>))\<lparr>ref_y := None, ref_x := None\<rparr>)
                      None)
   \<and> \<not> (truthy_real (ref_lat (example_inps\<lparr>ref_y := Some 2, ref_x := Some 0\<rparr>))
          \<and> truthy_real (ref_lon (example_inps\<lparr>ref_y := Some 2, ref_x := Some 0\<rparr>)))
   \<and> ref_x (example_inps\<lparr>ref_y := Some 2, ref_x := Some 0\<rparr>) = Some 0
   \<and> map_option snd (main example_env example_seedfiles ''ts.h5''
                      (example_inps\<lparr>ref_y := Some 2, ref_x := Some 0\<rparr>) None)
     = map_option snd (main example_env example_seedfiles ''ts.h5''
                      (example_inps\<lparr>ref_y := Some 2, ref_x := Some 0\<rparr>
                         \<lparr>ref_y := None, ref_x := None\<rparr>) None)"
proof -
  let ?a = "example_inps\<lparr>coherence_file := Some ''coh.h5'', ref_y := Some 0, ref_x := Some 2\<rparr>"
  let ?b = "example_inps\<lparr>ref_y := Some 2, ref_x := Some 0\<rparr>"
  have h1: "ref_y (main_latlon example_env ?a) = Some 0"
    by (simp add: main_latlon_def example_inps_def)
  have h2: "\<not> (truthy_real (ref_lat ?b) \<and> truthy_real (ref_lon ?b))"
    by (simp add: truthy_real_def example_inps_def)
  have h3: "ref_x ?b = Some 0" by simp
  note t1 = zero_coordinate_as_not_supplied [of example_env ?a example_seedfiles "''ts.h5''" None,
              THEN conjunct1, rule_format]
  note t2 = zero_coordinate_as_not_supplied [of example_env ?b example_seedfiles "''ts.h5''" None,
              THEN conjunct2, rule_format]
  from h1 have c1: "map_option snd (main example_env example_seedfiles ''ts.h5'' ?a None)
     = map_option snd (main_from_yx example_env example_seedfiles ''ts.h5''
                      ((main_latlon example_env ?a)\<lparr>ref_y := None, ref_x := None\<rparr>) None)"
    by (intro t1) simp
  from h2 h3 have c2: "map_option snd (main example_env example_seedfiles ''ts.h5'' ?b None)
     = map_option snd (main example_env example_seedfiles ''ts.h5''
                      (?b\<lparr>ref_y := None, ref_x := None\<rparr>) None)"
    by (intro t2) simp
  from h1 h2 h3 c1 c2 show ?thesis by blast
qed

text \<open>
  The theorem at the example: the pixel (2, 2) is committed, the row 5 is dropped, the
  pixel (1, 2) is masked out by the mask file, and the pixel (1, 1) has no stack value.
\<close>

theorem explicit_coordinate_resolution_witness:
  "example_seedfiles ''ts.h5'' = Some example_ts
   \<and> grid_shape (file_stack example_env) (file_length example_env) (file_width example_env)
   \<and> grid_shape (mask_raster example_env) (file_length example_env) (file_width example_env)
   \<and> file_stack example_env ! nat 2 ! nat 2 \<noteq> NaN
   \<and> main example_env example_seedfiles ''ts.h5''
        (example_inps\<lparr>ref_y := Some 2, ref_x := Some 2\<rparr>) None
       = (case seed_yx example_env example_seedfiles ''ts.h5'' example_ts
                 (outfile_name None ''ts.h5'') False (valid_mask (file_stack example_env)) 2 2 of
            (fs', r) \<Rightarrow>
              Some (example_inps\<lparr>ref_y := Some 2, ref_x := Some 2, seed_method := ''input-coord''\<rparr>,
                    fs', r))
   \<and> file_length example_env < 5
   \<and> main example_env example_seedfiles ''ts.h5''
        (example_inps\<lparr>ref_y := Some 5, ref_x := Some 1\<rparr>) None
       = main_from_yx example_env example_seedfiles ''ts.h5''
           (example_inps\<lparr>ref_y := None, ref_x := None\<rparr>) None
   \<and> mask_raster example_env ! nat 1 ! nat 2 = Val 0
   \<and> main example_env example_seedfiles ''ts.h5''
        (example_inps\<lparr>mask_file := Some ''mask.h5'', ref_y := Some 1, ref_x := Some 2\<rparr>) None
       = main_from_yx example_env example_seedfiles ''ts.h5''
           (example_inps\<lparr>mask_file := Some ''mask.h5'', ref_y := None, ref_x := None\<rparr>) None
   \<and> file_stack example_env ! nat 1 ! nat 1 = NaN
   \<and> count_true (valid_mask (file_stack example_env)) \<noteq> 0
   \<and> main example_env example_seedfiles ''ts.h5''
        (example_inps\<lparr>ref_y := Some 1, ref_x := Some 1\<rparr>) None
       = Some (example_inps\<lparr>ref_y := Some 1, ref_x := Some 1, seed_method := ''input-coord''\<rparr>,
               example_seedfiles, Inl ValueError)"
proof -
  let ?a = "example_inps\<lparr>ref_y := Some 2, ref_x := Some 2\<rparr>"
  let ?b = "example_inps\<lparr>ref_y := Some 5, ref_x := Some 1\<rparr>"
  let ?c = "example_inps\<lparr>mask_file := Some ''mask.h5'', ref_y := Some 1, ref_x := Some 2\<rparr>"
  let ?d = "example_inps\<lparr>ref_y := Some 1, ref_x := Some 1\<rparr>"
  have ll: "main_latlon example_env (example_inps\<lparr>mask_file := mf, ref_y := a, ref_x := b\<rparr>)
              = example_inps\<lparr>mask_file := mf, ref_y := a, ref_x := b\<rparr>" for mf a b
    by (simp add: main_latlon_def example_inps_def)
  have ll0: "main_latlon example_env (example_inps\<lparr>ref_y := a, ref_x := b\<rparr>)
              = example_inps\<lparr>ref_y := a, ref_x := b\<rparr>" for a b
    by (simp add: main_latlon_def example_inps_def)
  have nomask: "\<not> truthy_str (mask_file (example_inps\<lparr>ref_y := a, ref_x := b\<rparr>))" for a b
    by (simp add: truthy_str_def example_inps_def)
  have mask: "truthy_str (mask_file ?c)" by (simp add: truthy_str_def)
  have mk: "mark_attribute (example_inps\<lparr>ref_y := a, ref_x := b\<rparr>) = False" for a b
    by (simp add: example_inps_def)
  have v22: "file_stack example_env ! nat 2 ! nat 2 \<noteq> NaN" by (simp add: example_env_fields)
  have v11: "file_stack example_env ! nat 1 ! nat 1 = NaN" by (simp add: example_env_fields)
  have m12: "mask_raster example_env ! nat 1 ! nat 2 = Val 0" by (simp add: example_env_fields)
  have nz: "count_true (valid_mask (file_stack example_env)) \<noteq> 0" by (simp add: example_count)
  have l5: "file_length example_env < 5" by (simp add: example_env_fields)
  note ta = explicit_coordinate_resolution [where fs = example_seedfiles and File = "''ts.h5''"
      and env = example_env and inps = ?a and y = 2 and x = 2 and outfile = None,
      OF example_fs example_shapes(1)]
  have ra: "main example_env example_seedfiles ''ts.h5'' ?a None
       = (case seed_yx example_env example_seedfiles ''ts.h5'' example_ts
                 (outfile_name None ''ts.h5'') False (valid_mask (file_stack example_env)) 2 2 of
            (fs', r) \<Rightarrow>
              Some (example_inps\<lparr>ref_y := Some 2, ref_x := Some 2, seed_method := ''input-coord''\<rparr>,
                    fs', r))"
    using ta [THEN conjunct1] v22 nomask [of "Some 2" "Some 2"]
    by (simp add: ll0 mk example_env_fields(1,2))
  note tb = explicit_coordinate_resolution [where fs = example_seedfiles and File = "''ts.h5''"
      and env = example_env and inps = ?b and y = 5 and x = 1 and outfile = None,
      OF example_fs example_shapes(1)]
  have rb: "main example_env example_seedfiles ''ts.h5'' ?b None
       = main_from_yx example_env example_seedfiles ''ts.h5''
           (example_inps\<lparr>ref_y := None, ref_x := None\<rparr>) None"
    using tb [THEN conjunct2, THEN conjunct1] l5 nomask [of "Some 5" "Some 1"]
    by (simp add: ll0)
  note tc = explicit_coordinate_resolution [where fs = example_seedfiles and File = "''ts.h5''"
      and env = example_env and inps = ?c and y = 1 and x = 2 and outfile = None,
      OF example_fs example_shapes(1)]
  have rc: "main example_env example_seedfiles ''ts.h5'' ?c None
       = main_from_yx example_env example_seedfiles ''ts.h5''
           (example_inps\<lparr>mask_file := Some ''mask.h5'', ref_y := None, ref_x := None\<rparr>) None"
    using tc [THEN conjunct2, THEN conjunct2, THEN conjunct1] m12 mask example_shapes(2)
    by (simp add: ll example_env_fields(1,2))
  note td = explicit_coordinate_resolution [where fs = example_seedfiles and File = "''ts.h5''"
      and env = example_env and inps = ?d and y = 1 and x = 1 and outfile = None,
      OF example_fs example_shapes(1)]
  have rd: "main example_env example_seedfiles ''ts.h5'' ?d None
       = Some (example_inps\<lparr>ref_y := Some 1, ref_x := Some 1, seed_method := ''input-coord''\<rparr>,
               example_seedfiles, Inl ValueError)"
    using td [THEN conjunct2, THEN conjunct2, THEN conjunct2] v11 nz nomask [of "Some 1" "Some 1"]
    by (simp add: ll0 example_env_fields(1,2))
  from example_fs example_shapes v22 ra l5 rb m12 rc v11 nz rd show ?thesis by blast
qed

end
